theory Spec2Isabelle
  imports Complex_Main "HOL-Library.Multiset" "HOL-Library.Sublist"
begin

section \<open>The recommendation controller of Optima-IDP\<close>

text \<open>
  A shallow embedding of \<^verbatim>\<open>backend/controllers/recommender.controller.js\<close>:
  the weight resolver \<^verbatim>\<open>getWeights\<close> and the request handler
  \<^verbatim>\<open>getSuggestions\<close>. Identifiers are modelled in their string form
  (the result of \<^verbatim>\<open>toString()\<close>), stores as lists of documents in their
  natural order, and every exception of the source as a value.
\<close>

subsection \<open>JavaScript values that may be absent\<close>

text \<open>
  A field of a response item that may be absent is a \<open>string option\<close>. Such a value is
  truthy when it is present and not the empty string; \<^verbatim>\<open>a || b\<close> is the left
  operand when that is truthy and the right operand otherwise.
\<close>

definition truthy :: "string option \<Rightarrow> bool" where
  "truthy v = (case v of None \<Rightarrow> False | Some s \<Rightarrow> s \<noteq> [])"

definition js_or :: "string option \<Rightarrow> string option \<Rightarrow> string option" where
  "js_or a b = (if truthy a then a else b)"

subsection \<open>Resource candidates and recommendation items\<close>

text \<open>The populated \<^verbatim>\<open>createdBy\<close> of a resource: only the name is selected.\<close>

record creator =
  creator_name :: string

text \<open>
  An element of \<^verbatim>\<open>formattedResources\<close>; \<open>fr_id\<close> is its \<^verbatim>\<open>_id\<close>,
  \<open>fr_createdBy\<close> is \<open>None\<close> when populate found no user.
\<close>

record formatted_resource =
  fr_id :: string
  fr_title :: string
  fr_provider :: string
  fr_type :: string
  fr_url :: string
  fr_duration :: string
  fr_skill :: "string option"
  fr_createdBy :: "creator option"

text \<open>
  An element of \<^verbatim>\<open>aiResponse.recommendations\<close>. The three identifier fields are
  \<open>resourceId\<close>, \<open>rec_uid\<close> (the field \<^verbatim>\<open>_id\<close>) and \<open>rec_id\<close> (the field
  \<^verbatim>\<open>id\<close>).
\<close>

record recommendation =
  resourceId :: "string option"
  rec_uid :: "string option"
  rec_id :: "string option"
  title :: "string option"
  provider :: "string option"
  rec_type :: "string option"
  url :: "string option"
  duration :: "string option"
  author :: "string option"

subsection \<open>The result reconciler (the deduplication loop)\<close>

text \<open>\<^verbatim>\<open>const rId = rec.resourceId || rec._id || rec.id\<close>\<close>

definition rId :: "recommendation \<Rightarrow> string option" where
  "rId r = js_or (js_or (resourceId r) (rec_uid r)) (rec_id r)"

text \<open>\<^verbatim>\<open>formattedResources.find(fr => fr._id === rId)\<close>\<close>

definition originalRes :: "formatted_resource list \<Rightarrow> recommendation \<Rightarrow> formatted_resource option" where
  "originalRes frs r = find (\<lambda>fr. Some (fr_id fr) = rId r) frs"

text \<open>
  The assignment \<^verbatim>\<open>rec.provider = originalRes.provider\<close>, made when a candidate
  matches and the item's provider is falsy or \<^verbatim>\<open>'Unknown'\<close>.
\<close>

definition backfill :: "formatted_resource list \<Rightarrow> recommendation \<Rightarrow> recommendation" where
  "backfill frs r =
     (case originalRes frs r of
        None \<Rightarrow> r
      | Some orig \<Rightarrow>
          if \<not> truthy (provider r) \<or> provider r = Some ''Unknown''
          then r\<lparr>provider := Some (fr_provider orig)\<rparr>
          else r)"

text \<open>
  The body of \<^verbatim>\<open>aiResponse.recommendations.forEach\<close>, over the state
  \<open>(uniqueRecs, seenIds)\<close>.
\<close>

fun forEach_rec ::
  "formatted_resource list \<Rightarrow> recommendation list \<Rightarrow>
   recommendation list \<times> string option set \<Rightarrow> recommendation list \<times> string option set" where
  "forEach_rec frs [] st = st"
| "forEach_rec frs (r # rs) (uniqueRecs, seenIds) =
     (let r' = backfill frs r in
      if truthy (rId r) \<and> rId r \<notin> seenIds
      then forEach_rec frs rs (uniqueRecs @ [r'], insert (rId r) seenIds)
      else forEach_rec frs rs (uniqueRecs, seenIds))"

definition deduplicate :: "formatted_resource list \<Rightarrow> recommendation list \<Rightarrow> recommendation list" where
  "deduplicate frs recs = fst (forEach_rec frs recs ([], {}))"

subsection \<open>Stored documents\<close>

text \<open>
  The documents the controller reads, with the fields it uses. \<open>u_skills\<close> is the
  field \<^verbatim>\<open>skills\<close> of a user; \<^verbatim>\<open>companySettings\<close> and its
  \<^verbatim>\<open>aiWeights\<close> may each be absent.
  A weight configuration is a JSON object of numbers.
\<close>

type_synonym weights = "(string \<times> real) list"

record skill_level =
  skillId :: string
  level :: "nat option"

record company_settings =
  aiWeights :: "weights option"

record user_doc =
  u_id :: string
  u_name :: string
  u_company :: string
  u_role :: string
  u_skills :: "skill_level list"
  u_companySettings :: "company_settings option"

record skill_doc =
  s_id :: string
  s_name :: string

record resource_doc =
  r_id :: string
  r_title :: string
  r_provider :: "string option"
  r_type :: string
  r_url :: string
  r_duration :: string
  r_skill :: "string option"
  r_createdBy :: string

record idp_doc =
  idp_employee :: string
  idp_status :: string
  idp_createdAt :: nat
  idp_goals :: string
  idp_recommendedResources :: "string list"

record report_doc =
  pr_id :: string
  pr_employee :: string
  pr_createdAt :: nat
  pr_content :: string

subsection \<open>The request, the oracle payload and the response\<close>

record target_skill =
  ts_skillId :: string
  targetLevel :: nat

text \<open>
  \<open>req_user_id\<close> is \<^verbatim>\<open>req.user._id\<close>, \<open>req_user_company\<close> is
  \<^verbatim>\<open>req.user.company\<close>, \<open>targetSkills\<close> is \<^verbatim>\<open>req.body.targetSkills\<close>.
\<close>

record request =
  req_user_id :: string
  req_user_company :: string
  targetSkills :: "target_skill list option"

record peer =
  userId :: string
  peer_skills :: "skill_level list"
  peer_resources :: "string list"

record payload =
  user_skills :: "skill_level list"
  skills_to_improve :: "target_skill list"
  performance_reports :: "report_doc list"
  resources :: "formatted_resource list"
  skills :: "skill_doc list"
  peer_data :: "peer list"
  limit :: nat
  persona :: string
  custom_weights :: weights
  goal_text :: string

text \<open>
  The payload's \<^verbatim>\<open>user_skills_data\<close>, always the empty array, is left out.
\<close>

text \<open>
  What \<^verbatim>\<open>RecommenderService.getRecommendedResources\<close> does is outside the
  controller: the call either rejects with an error message or resolves to a value. The
  value is falsy, or an object whose \<^verbatim>\<open>recommendations\<close> is absent
  (\<^verbatim>\<open>undefined\<close> or \<^verbatim>\<open>null\<close>), falsy otherwise (an empty
  string, zero, \<^verbatim>\<open>false\<close>), truthy but not an array, or an array of items. An
  item is an object whose fields, where present, are strings.
\<close>

datatype recs_field = RecsAbsent | RecsFalsy | RecsNotArray | RecsArray "recommendation list"

datatype ai_response = AiFalsy | AiObject recs_field

datatype oracle_outcome = OracleThrows string | OracleReturns ai_response

text \<open>
  The JSON bodies: the not-found message, the failure with its generic message and the
  error's message, the answer with its recommendation list, and the oracle's answer
  passed on as it came, without a recommendation list.
\<close>

datatype body =
    Message string
  | Failure string string
  | Recommendations "recommendation list"
  | Passthrough

datatype response = Response (status: nat) (body: body)

subsection \<open>The environment of a request\<close>

text \<open>The store queries of the controller, in the order of the source.\<close>

datatype query =
    User_findById
  | IDP_findOne
  | PerformanceReport_find
  | Skill_find
  | User_find_company
  | Resource_find
  | User_find_peers
  | IDP_find
  | User_findOne_admin

text \<open>The legacy file \<^verbatim>\<open>config/recommender-weights.json\<close>.\<close>

datatype legacy_file = FileAbsent | FileUnreadable | FileMalformed | FileJson weights

text \<open>
  \<open>db_fails q\<close> says that the store rejects query \<open>q\<close>; \<open>random_choices\<close> are the
  draws that decide the order \<^verbatim>\<open>sort(() => 0.5 - Math.random())\<close> leaves.
\<close>

record env =
  db_users :: "user_doc list"
  db_skills :: "skill_doc list"
  db_resources :: "resource_doc list"
  db_reports :: "report_doc list"
  db_idps :: "idp_doc list"
  db_fails :: "query \<Rightarrow> bool"
  legacy_config :: legacy_file
  scoring_oracle :: "payload \<Rightarrow> oracle_outcome"
  random_choices :: "nat list"

subsection \<open>Control flow: early return, exception, value\<close>

datatype 'a step = Return404 | Throw string | Value 'a

fun and_then :: "'a step \<Rightarrow> ('a \<Rightarrow> 'b step) \<Rightarrow> 'b step" where
  "and_then Return404 f = Return404"
| "and_then (Throw m) f = Throw m"
| "and_then (Value x) f = f x"

text \<open>
  An awaited store query: it rejects, with some error message, or gives its result.
\<close>

definition await :: "env \<Rightarrow> query \<Rightarrow> 'a \<Rightarrow> 'a step" where
  "await e q x = (if db_fails e q then Throw ''store error'' else Value x)"

subsection \<open>The weight resolver\<close>

definition DEFAULT_WEIGHTS :: weights where
  "DEFAULT_WEIGHTS =
     [(''skill_gap'', 0.30),
      (''skill_relevance'', 0.20),
      (''difficulty_match'', 0.20),
      (''collaborative'', 0.15),
      (''resource_type'', 0.00),
      (''skill_similarity'', 0.15)]"

text \<open>\<^verbatim>\<open>User.findOne({ company, role: 'admin' })\<close>\<close>

definition findOne_admin :: "user_doc list \<Rightarrow> string \<Rightarrow> user_doc option" where
  "findOne_admin us c = find (\<lambda>u. u_company u = c \<and> u_role u = ''admin'') us"

text \<open>
  \<^verbatim>\<open>adminUser && adminUser.companySettings && adminUser.companySettings.aiWeights\<close>
\<close>

definition admin_aiWeights :: "user_doc option \<Rightarrow> weights option" where
  "admin_aiWeights adminUser =
     (case adminUser of
        None \<Rightarrow> None
      | Some u \<Rightarrow> (case u_companySettings u of None \<Rightarrow> None | Some cs \<Rightarrow> aiWeights cs))"

text \<open>
  The legacy tier: \<^verbatim>\<open>fs.existsSync\<close>, then reading and parsing inside the inner
  \<^verbatim>\<open>try\<close>, whose \<^verbatim>\<open>catch\<close> logs and goes on. \<open>Some w\<close> is the inner
  \<^verbatim>\<open>return\<close>.
\<close>

definition legacy_tier :: "legacy_file \<Rightarrow> weights option" where
  "legacy_tier f =
     (case f of
        FileAbsent \<Rightarrow> None
      | FileUnreadable \<Rightarrow> None
      | FileMalformed \<Rightarrow> None
      | FileJson w \<Rightarrow> Some w)"

text \<open>
  The body of the outer \<^verbatim>\<open>try\<close>: \<open>Value (Some w)\<close> is a \<^verbatim>\<open>return\<close>
  inside it, \<open>Value None\<close> leaves it without returning, \<open>Throw\<close> is the rejected store
  query.
\<close>

definition getWeights_try :: "env \<Rightarrow> string \<Rightarrow> weights option step" where
  "getWeights_try e c =
     and_then (await e User_findOne_admin (findOne_admin (db_users e) c)) (\<lambda>adminUser.
       case admin_aiWeights adminUser of
         Some w \<Rightarrow> Value (Some w)
       | None \<Rightarrow> Value (legacy_tier (legacy_config e)))"

text \<open>The outer \<^verbatim>\<open>catch\<close> logs; whatever has not returned gets the defaults.\<close>

definition getWeights :: "env \<Rightarrow> string \<Rightarrow> weights" where
  "getWeights e c =
     (case getWeights_try e c of
        Value (Some w) \<Rightarrow> w
      | Value None \<Rightarrow> DEFAULT_WEIGHTS
      | Throw m \<Rightarrow> DEFAULT_WEIGHTS
      | Return404 \<Rightarrow> DEFAULT_WEIGHTS)"

subsection \<open>The signal aggregator\<close>

text \<open>
  \<^verbatim>\<open>.sort({ createdAt: -1 })\<close>: descending by the key. Documents with equal keys
  stay in store order; the store itself promises no order among them.
\<close>

fun insert_desc :: "('a \<Rightarrow> nat) \<Rightarrow> 'a \<Rightarrow> 'a list \<Rightarrow> 'a list" where
  "insert_desc k x [] = [x]"
| "insert_desc k x (y # ys) =
     (if k y \<le> k x then x # y # ys else y # insert_desc k x ys)"

definition sort_desc :: "('a \<Rightarrow> nat) \<Rightarrow> 'a list \<Rightarrow> 'a list" where
  "sort_desc k xs = foldr (insert_desc k) xs []"

definition findById :: "user_doc list \<Rightarrow> string \<Rightarrow> user_doc option" where
  "findById us uid = find (\<lambda>u. u_id u = uid) us"

text \<open>
  \<^verbatim>\<open>populate("skills.skillId")\<close> replaces a reference by the skill document, or by
  \<^verbatim>\<open>null\<close> when there is none; \<^verbatim>\<open>s.skillId._id\<close> then throws.
\<close>

definition populate_skill :: "skill_doc list \<Rightarrow> skill_level \<Rightarrow> skill_doc option" where
  "populate_skill ss s = find (\<lambda>k. s_id k = skillId s) ss"

fun userSkills :: "skill_doc list \<Rightarrow> skill_level list \<Rightarrow> skill_level list step" where
  "userSkills ss [] = Value []"
| "userSkills ss (s # rest) =
     (case populate_skill ss s of
        None \<Rightarrow> Throw ''Cannot read properties of null''
      | Some k \<Rightarrow>
          and_then (userSkills ss rest) (\<lambda>acc.
            Value (\<lparr>skillId = s_id k, level = level s\<rparr> # acc)))"

definition eligible_plan :: "string \<Rightarrow> idp_doc \<Rightarrow> bool" where
  "eligible_plan uid i =
     (idp_employee i = uid \<and> idp_status i \<in> set [''approved'', ''pending'', ''draft''])"

text \<open>\<^verbatim>\<open>IDP.findOne({...}).sort({ createdAt: -1 })\<close>\<close>

definition latestIdp :: "idp_doc list \<Rightarrow> string \<Rightarrow> idp_doc option" where
  "latestIdp idps uid =
     (case sort_desc idp_createdAt (filter (eligible_plan uid) idps) of
        [] \<Rightarrow> None
      | i # _ \<Rightarrow> Some i)"

definition goalText :: "idp_doc option \<Rightarrow> string" where
  "goalText l = (case l of Some i \<Rightarrow> idp_goals i | None \<Rightarrow> [])"

definition performanceReports :: "report_doc list \<Rightarrow> string \<Rightarrow> report_doc list" where
  "performanceReports rs uid =
     take 5 (sort_desc pr_createdAt (filter (\<lambda>r. pr_employee r = uid) rs))"

definition companyUserIds :: "user_doc list \<Rightarrow> string \<Rightarrow> string list" where
  "companyUserIds us c = map u_id (filter (\<lambda>u. u_company u = c) us)"

text \<open>\<^verbatim>\<open>Resource.find({ createdBy: { $in: companyUserIds } })\<close>\<close>

definition allResources :: "resource_doc list \<Rightarrow> string list \<Rightarrow> resource_doc list" where
  "allResources rs ids = filter (\<lambda>r. r_createdBy r \<in> set ids) rs"

definition populate_createdBy :: "user_doc list \<Rightarrow> resource_doc \<Rightarrow> creator option" where
  "populate_createdBy us r =
     map_option (\<lambda>u. \<lparr>creator_name = u_name u\<rparr>) (find (\<lambda>u. u_id u = r_createdBy r) us)"

definition creator_or_unknown :: "creator option \<Rightarrow> string" where
  "creator_or_unknown c = (case c of Some x \<Rightarrow> creator_name x | None \<Rightarrow> ''Unknown'')"

text \<open>One element of \<^verbatim>\<open>formattedResources\<close>, with the provider enriched.\<close>

definition format_resource :: "user_doc list \<Rightarrow> resource_doc \<Rightarrow> formatted_resource" where
  "format_resource us r =
     (let createdBy = populate_createdBy us r in
      \<lparr>fr_id = r_id r,
       fr_title = r_title r,
       fr_provider =
         (case r_provider r of
            Some p \<Rightarrow> if p \<noteq> [] \<and> p \<noteq> ''Unknown'' then p else creator_or_unknown createdBy
          | None \<Rightarrow> creator_or_unknown createdBy),
       fr_type = r_type r,
       fr_url = r_url r,
       fr_duration = r_duration r,
       fr_skill = r_skill r,
       fr_createdBy = createdBy\<rparr>)"

definition formattedResources :: "user_doc list \<Rightarrow> resource_doc list \<Rightarrow> formatted_resource list" where
  "formattedResources us rs = map (format_resource us) rs"

text \<open>The peers: other users of the same company.\<close>

definition allUsers :: "user_doc list \<Rightarrow> string \<Rightarrow> string \<Rightarrow> user_doc list" where
  "allUsers us uid c = filter (\<lambda>u. u_id u \<noteq> uid \<and> u_company u = c) us"

definition counted_plan :: "user_doc list \<Rightarrow> idp_doc \<Rightarrow> bool" where
  "counted_plan peers i =
     (idp_status i \<in> set [''approved'', ''completed''] \<and> idp_employee i \<in> set (map u_id peers))"

definition allIDPs :: "idp_doc list \<Rightarrow> user_doc list \<Rightarrow> idp_doc list" where
  "allIDPs idps peers = filter (counted_plan peers) idps"

text \<open>A JavaScript \<^verbatim>\<open>Set\<close> of strings, as the list of its elements in insertion order.\<close>

definition set_add :: "'a \<Rightarrow> 'a list \<Rightarrow> 'a list" where
  "set_add x xs = (if x \<in> set xs then xs else xs @ [x])"

text \<open>
  The elements of the set stored under a key; none when the key is absent, as in
  \<^verbatim>\<open>userResourcesMap[id] || []\<close> and in the fresh \<^verbatim>\<open>new Set()\<close>.
\<close>

definition members :: "(string \<rightharpoonup> string list) \<Rightarrow> string \<Rightarrow> string list" where
  "members m k = (case m k of None \<Rightarrow> [] | Some s \<Rightarrow> s)"

text \<open>The body of \<^verbatim>\<open>allIDPs.forEach\<close> on \<^verbatim>\<open>userResourcesMap\<close>.\<close>

definition add_idp :: "idp_doc \<Rightarrow> (string \<rightharpoonup> string list) \<Rightarrow> (string \<rightharpoonup> string list)" where
  "add_idp idp m =
     (let empId = idp_employee idp
      in m(empId \<mapsto> fold set_add (idp_recommendedResources idp) (members m empId)))"

definition userResourcesMap :: "idp_doc list \<Rightarrow> (string \<rightharpoonup> string list)" where
  "userResourcesMap idps = fold add_idp idps Map.empty"

definition level_or_1 :: "nat option \<Rightarrow> nat" where
  "level_or_1 l = (case l of None \<Rightarrow> 1 | Some n \<Rightarrow> if n = 0 then 1 else n)"

definition peer_of :: "(string \<rightharpoonup> string list) \<Rightarrow> user_doc \<Rightarrow> peer" where
  "peer_of m u =
     \<lparr>userId = u_id u,
      peer_skills = map (\<lambda>s. \<lparr>skillId = skillId s, level = Some (level_or_1 (level s))\<rparr>) (u_skills u),
      peer_resources = members m (u_id u)\<rparr>"

definition peerData :: "(string \<rightharpoonup> string list) \<Rightarrow> user_doc list \<Rightarrow> peer list" where
  "peerData m peers =
     filter (\<lambda>p. length (peer_resources p) > 0 \<or> length (peer_skills p) > 0)
       (map (peer_of m) peers)"

text \<open>
  Lines 49 to 162 of \<^verbatim>\<open>getSuggestions\<close>: the queries in the order of the source,
  each of which may reject, and the payload built from them.
\<close>

definition aggregate :: "env \<Rightarrow> request \<Rightarrow> payload step" where
  "aggregate e req =
     (let userId = req_user_id req; userCompany = req_user_company req in
      and_then (await e User_findById (findById (db_users e) userId)) (\<lambda>found.
      case found of
        None \<Rightarrow> Return404
      | Some user \<Rightarrow>
      and_then (userSkills (db_skills e) (u_skills user)) (\<lambda>userSkills.
      and_then (await e IDP_findOne (latestIdp (db_idps e) userId)) (\<lambda>latest.
      and_then (await e PerformanceReport_find (performanceReports (db_reports e) userId)) (\<lambda>reports.
      and_then (await e Skill_find (db_skills e)) (\<lambda>allSkills.
      and_then (await e User_find_company (companyUserIds (db_users e) userCompany)) (\<lambda>ids.
      and_then (await e Resource_find (allResources (db_resources e) ids)) (\<lambda>found_resources.
      and_then (await e User_find_peers (allUsers (db_users e) userId userCompany)) (\<lambda>peers.
      and_then (await e IDP_find (allIDPs (db_idps e) peers)) (\<lambda>plans.
        Value
          \<lparr>user_skills = userSkills,
           skills_to_improve = (case targetSkills req of Some ts \<Rightarrow> ts | None \<Rightarrow> []),
           performance_reports = reports,
           resources = formattedResources (db_users e) found_resources,
           skills = allSkills,
           peer_data = peerData (userResourcesMap plans) peers,
           limit = 10,
           persona = u_role user,
           custom_weights = getWeights e (u_company user),
           goal_text = goalText latest\<rparr>))))))))))"

subsection \<open>The scoring dispatcher and the fallback sampler\<close>

text \<open>
  \<^verbatim>\<open>formattedResources.sort(() => 0.5 - Math.random())\<close> leaves the array in an
  order that the random draws decide: each draw picks the next element among those left.
\<close>

fun shuffle_by :: "nat list \<Rightarrow> 'a list \<Rightarrow> 'a list" where
  "shuffle_by [] xs = xs"
| "shuffle_by (c # cs) [] = []"
| "shuffle_by (c # cs) (x # xs) =
     (let i = c mod Suc (length xs) in
      (x # xs) ! i # shuffle_by cs (take i (x # xs) @ drop (Suc i) (x # xs)))"

definition fallback_item :: "formatted_resource \<Rightarrow> recommendation" where
  "fallback_item r =
     \<lparr>resourceId = Some (fr_id r),
      rec_uid = None,
      rec_id = None,
      title = Some (fr_title r),
      provider = Some (fr_provider r),
      rec_type = Some (fr_type r),
      url = Some (fr_url r),
      duration = Some (fr_duration r),
      author = Some (creator_or_unknown (fr_createdBy r))\<rparr>"

definition fallback :: "formatted_resource list \<Rightarrow> recommendation list" where
  "fallback shuffled = map fallback_item (take 10 shuffled)"

text \<open>
  Lines 164 to 184: the oracle call inside its \<^verbatim>\<open>try\<close>. The second component is
  \<^verbatim>\<open>formattedResources\<close> afterwards: the fallback sorts that array in place.
\<close>

definition dispatch :: "env \<Rightarrow> payload \<Rightarrow> ai_response \<times> formatted_resource list" where
  "dispatch e p =
     (case scoring_oracle e p of
        OracleReturns a \<Rightarrow> (a, resources p)
      | OracleThrows m \<Rightarrow>
          (let shuffled = shuffle_by (random_choices e) (resources p)
           in (AiObject (RecsArray (fallback shuffled)), shuffled)))"

text \<open>
  Lines 186 to 207: the guarded deduplication, then
  \<^verbatim>\<open>aiResponse.recommendations.length\<close>, which throws when there is no
  \<^verbatim>\<open>aiResponse\<close> or no \<^verbatim>\<open>recommendations\<close>, and reads a property
  of a falsy value otherwise; on a truthy value that is not an array it is
  \<^verbatim>\<open>forEach\<close> that throws.
\<close>

definition reconcile :: "formatted_resource list \<Rightarrow> ai_response \<Rightarrow> body step" where
  "reconcile frs a =
     (case a of
        AiFalsy \<Rightarrow> Throw ''Cannot read properties of null''
      | AiObject RecsAbsent \<Rightarrow> Throw ''Cannot read properties of undefined''
      | AiObject RecsFalsy \<Rightarrow> Value Passthrough
      | AiObject RecsNotArray \<Rightarrow> Throw ''forEach is not a function''
      | AiObject (RecsArray recs) \<Rightarrow> Value (Recommendations (deduplicate frs recs)))"

text \<open>The handler, with its early return and its outer \<^verbatim>\<open>catch\<close>.\<close>

definition getSuggestions :: "env \<Rightarrow> request \<Rightarrow> response" where
  "getSuggestions e req =
     (case and_then (aggregate e req) (\<lambda>p. case dispatch e p of (a, frs) \<Rightarrow> reconcile frs a) of
        Return404 \<Rightarrow> Response 404 (Message ''User not found'')
      | Throw m \<Rightarrow> Response 500 (Failure ''Failed to generate suggestions'' m)
      | Value b \<Rightarrow> Response 200 b)"

subsection \<open>The specification's reading of the weight tiers\<close>

text \<open>
  The resolution as the specification words it, for comparison with \<open>getWeights\<close>:
  three tiers tried in order, where an error in a tier falls through to the next tier.
\<close>

definition getWeights_as_specified :: "env \<Rightarrow> string \<Rightarrow> weights" where
  "getWeights_as_specified e c =
     (let tier1 = (if db_fails e User_findOne_admin then None
                   else admin_aiWeights (findOne_admin (db_users e) c));
          tier2 = legacy_tier (legacy_config e)
      in case tier1 of
           Some w \<Rightarrow> w
         | None \<Rightarrow> (case tier2 of Some w \<Rightarrow> w | None \<Rightarrow> DEFAULT_WEIGHTS))"

subsection \<open>The items the deduplication loop keeps\<close>

text \<open>
  The items of the input that the loop pushes, before the provider assignment: those with
  a truthy identifier not seen so far.
\<close>

fun kept :: "string option set \<Rightarrow> recommendation list \<Rightarrow> recommendation list" where
  "kept seen [] = []"
| "kept seen (r # rs) =
     (if truthy (rId r) \<and> rId r \<notin> seen then r # kept (insert (rId r) seen) rs
      else kept seen rs)"

subsection \<open>Example data\<close>

text \<open>
  Company A has Alice (the requester), Dana and Pat; company B has Bob. Dana created a
  resource with provider \<^verbatim>\<open>'Unknown'\<close>, Alice one with a provider, Bob one for
  the same skill. Alice has an older draft plan and a newer approved one; Dana has an
  approved plan that recommends one resource twice; Pat has no skills and no plan.
\<close>

definition alice :: user_doc where
  "alice = \<lparr>u_id = ''u1'', u_name = ''Alice'', u_company = ''A'', u_role = ''employee'',
     u_skills = [\<lparr>skillId = ''s1'', level = Some 2\<rparr>], u_companySettings = None\<rparr>"

definition dana :: user_doc where
  "dana = \<lparr>u_id = ''u2'', u_name = ''Dana'', u_company = ''A'', u_role = ''manager'',
     u_skills = [], u_companySettings = None\<rparr>"

definition bob :: user_doc where
  "bob = \<lparr>u_id = ''u3'', u_name = ''Bob'', u_company = ''B'', u_role = ''employee'',
     u_skills = [\<lparr>skillId = ''s1'', level = Some 3\<rparr>], u_companySettings = None\<rparr>"

definition pat :: user_doc where
  "pat = \<lparr>u_id = ''u4'', u_name = ''Pat'', u_company = ''A'', u_role = ''employee'',
     u_skills = [], u_companySettings = None\<rparr>"

definition res1 :: resource_doc where
  "res1 = \<lparr>r_id = ''r1'', r_title = ''Intro'', r_provider = Some ''Unknown'', r_type = ''course'',
     r_url = ''http://a/1'', r_duration = ''1h'', r_skill = Some ''s1'', r_createdBy = ''u2''\<rparr>"

definition res2 :: resource_doc where
  "res2 = \<lparr>r_id = ''r2'', r_title = ''Next'', r_provider = Some ''Coursera'', r_type = ''course'',
     r_url = ''http://a/2'', r_duration = ''2h'', r_skill = Some ''s2'', r_createdBy = ''u1''\<rparr>"

definition res3 :: resource_doc where
  "res3 = \<lparr>r_id = ''r3'', r_title = ''Other'', r_provider = None, r_type = ''video'',
     r_url = ''http://b/3'', r_duration = ''3h'', r_skill = Some ''s1'', r_createdBy = ''u3''\<rparr>"

definition demo_idps :: "idp_doc list" where
  "demo_idps =
     [\<lparr>idp_employee = ''u1'', idp_status = ''draft'', idp_createdAt = 1,
       idp_goals = ''older goals'', idp_recommendedResources = []\<rparr>,
      \<lparr>idp_employee = ''u1'', idp_status = ''approved'', idp_createdAt = 2,
       idp_goals = ''newer goals'', idp_recommendedResources = []\<rparr>,
      \<lparr>idp_employee = ''u2'', idp_status = ''approved'', idp_createdAt = 3,
       idp_goals = ''lead'', idp_recommendedResources = [''r1'', ''r1'', ''r2'']\<rparr>]"

definition demo_skills :: "skill_doc list" where
  "demo_skills = [\<lparr>s_id = ''s1'', s_name = ''Isabelle''\<rparr>, \<lparr>s_id = ''s2'', s_name = ''HOL''\<rparr>]"

text \<open>In \<open>demo_env\<close> the oracle is unreachable.\<close>

definition demo_env :: env where
  "demo_env =
     \<lparr>db_users = [alice, dana, bob, pat],
      db_skills = demo_skills,
      db_resources = [res1, res2, res3],
      db_reports = [],
      db_idps = demo_idps,
      db_fails = (\<lambda>q. False),
      legacy_config = FileAbsent,
      scoring_oracle = (\<lambda>p. OracleThrows ''ECONNREFUSED''),
      random_choices = [1]\<rparr>"

definition demo_req :: request where
  "demo_req = \<lparr>req_user_id = ''u1'', req_user_company = ''A'',
     targetSkills = Some [\<lparr>ts_skillId = ''s2'', targetLevel = 4\<rparr>]\<rparr>"

definition ghost_req :: request where
  "ghost_req = \<lparr>req_user_id = ''u9'', req_user_company = ''A'', targetSkills = None\<rparr>"

definition cand1 :: formatted_resource where
  "cand1 = \<lparr>fr_id = ''r1'', fr_title = ''Intro'', fr_provider = ''Dana'', fr_type = ''course'',
     fr_url = ''http://a/1'', fr_duration = ''1h'', fr_skill = Some ''s1'',
     fr_createdBy = Some \<lparr>creator_name = ''Dana''\<rparr>\<rparr>"

definition cand2 :: formatted_resource where
  "cand2 = \<lparr>fr_id = ''r2'', fr_title = ''Next'', fr_provider = ''Coursera'', fr_type = ''course'',
     fr_url = ''http://a/2'', fr_duration = ''2h'', fr_skill = Some ''s2'',
     fr_createdBy = Some \<lparr>creator_name = ''Alice''\<rparr>\<rparr>"

text \<open>The payload built for Alice's request in \<open>demo_env\<close>.\<close>

definition demo_payload :: payload where
  "demo_payload =
     \<lparr>user_skills = [\<lparr>skillId = ''s1'', level = Some 2\<rparr>],
      skills_to_improve = [\<lparr>ts_skillId = ''s2'', targetLevel = 4\<rparr>],
      performance_reports = [],
      resources = [cand1, cand2],
      skills = demo_skills,
      peer_data = [\<lparr>userId = ''u2'', peer_skills = [], peer_resources = [''r1'', ''r2'']\<rparr>],
      limit = 10,
      persona = ''employee'',
      custom_weights = DEFAULT_WEIGHTS,
      goal_text = ''newer goals''\<rparr>"

definition item :: "string option \<Rightarrow> string option \<Rightarrow> string option \<Rightarrow> string option \<Rightarrow> recommendation" where
  "item a b c p =
     \<lparr>resourceId = a, rec_uid = b, rec_id = c, title = Some ''t'', provider = p,
      rec_type = None, url = None, duration = None, author = None\<rparr>"

text \<open>
  An oracle answer that names \<^verbatim>\<open>r1\<close> twice, through two different fields, echoes
  \<^verbatim>\<open>'Unknown'\<close>, omits a provider, and has an item without any identifier.
\<close>

definition echo_recs :: "recommendation list" where
  "echo_recs =
     [item (Some ''r1'') None None (Some ''Unknown''),
      item None (Some ''r1'') None (Some ''Udemy''),
      item None None None (Some ''Udemy''),
      item None None (Some ''r2'') None]"

definition echo_env :: env where
  "echo_env = demo_env\<lparr>scoring_oracle := (\<lambda>p. OracleReturns (AiObject (RecsArray echo_recs)))\<rparr>"

definition echo_out :: "recommendation list" where
  "echo_out =
     [item (Some ''r1'') None None (Some ''Dana''),
      item None None (Some ''r2'') (Some ''Coursera'')]"

text \<open>The answer of \<open>demo_env\<close>, where the fallback runs.\<close>

definition fallback_out :: "recommendation list" where
  "fallback_out = [fallback_item cand2, fallback_item cand1]"

text \<open>An oracle that answers with an object without \<^verbatim>\<open>recommendations\<close>.\<close>

definition malformed_env :: env where
  "malformed_env = demo_env\<lparr>scoring_oracle := (\<lambda>p. OracleReturns (AiObject RecsAbsent))\<rparr>"

text \<open>An oracle that answers with eleven different items.\<close>

definition eleven_recs :: "recommendation list" where
  "eleven_recs =
     map (\<lambda>i. item (Some i) None None (Some ''Udemy''))
       [''a'', ''b'', ''c'', ''d'', ''e'', ''f'', ''g'', ''h'', ''i'', ''j'', ''k'']"

definition eleven_env :: env where
  "eleven_env = demo_env\<lparr>scoring_oracle := (\<lambda>p. OracleReturns (AiObject (RecsArray eleven_recs)))\<rparr>"

text \<open>An oracle that names Bob's resource.\<close>

definition foreign_item :: recommendation where
  "foreign_item = item (Some ''r3'') None None (Some ''Udemy'')"

definition leak_env :: env where
  "leak_env = demo_env\<lparr>scoring_oracle := (\<lambda>p. OracleReturns (AiObject (RecsArray [foreign_item])))\<rparr>"

text \<open>The store rejects the admin lookup while a valid legacy file exists.\<close>

definition legacy_weights :: weights where
  "legacy_weights = [(''skill_gap'', 1)]"

definition admin_down_env :: env where
  "admin_down_env =
     demo_env\<lparr>db_fails := (\<lambda>q. q = User_findOne_admin), legacy_config := FileJson legacy_weights\<rparr>"

text \<open>The store rejects the resource query.\<close>

definition resources_down_env :: env where
  "resources_down_env = demo_env\<lparr>db_fails := (\<lambda>q. q = Resource_find)\<rparr>"

text \<open>Company A without any resource of its own.\<close>

definition empty_env :: env where
  "empty_env = demo_env\<lparr>db_resources := [res3]\<rparr>"

definition empty_payload :: payload where
  "empty_payload = demo_payload\<lparr>resources := []\<rparr>"

text \<open>
  Company A with an admin who has configured weights, beside a valid legacy file; and
  company A without such an admin, beside a valid or a malformed legacy file.
\<close>

definition admin_weights :: weights where
  "admin_weights = [(''skill_gap'', 0.5), (''collaborative'', 0.5)]"

definition erin :: user_doc where
  "erin = \<lparr>u_id = ''u5'', u_name = ''Erin'', u_company = ''A'', u_role = ''admin'',
     u_skills = [], u_companySettings = Some \<lparr>aiWeights = Some admin_weights\<rparr>\<rparr>"

definition admin_env :: env where
  "admin_env =
     demo_env\<lparr>db_users := [alice, dana, bob, pat, erin], legacy_config := FileJson legacy_weights\<rparr>"

definition legacy_env :: env where
  "legacy_env = demo_env\<lparr>legacy_config := FileJson legacy_weights\<rparr>"

definition malformed_file_env :: env where
  "malformed_file_env = demo_env\<lparr>legacy_config := FileMalformed\<rparr>"

section \<open>Properties of the model\<close>

subsection \<open>Control flow\<close>

lemma and_then_Value_iff:
  "and_then m f = Value y \<longleftrightarrow> (\<exists>x. m = Value x \<and> f x = Value y)"
  by (cases m) simp_all

lemma and_then_Return404_iff:
  "and_then m f = Return404 \<longleftrightarrow> m = Return404 \<or> (\<exists>x. m = Value x \<and> f x = Return404)"
  by (cases m) simp_all

lemma await_Value_iff: "await e q x = Value y \<longleftrightarrow> \<not> db_fails e q \<and> x = y"
  by (auto simp: await_def)

lemma await_not_Return404: "await e q x \<noteq> Return404"
  by (simp add: await_def)

lemma userSkills_not_Return404: "userSkills ss xs \<noteq> Return404"
proof (induction xs)
  case Nil
  show ?case by simp
next
  case (Cons s rest)
  then show ?case
    by (cases "userSkills ss rest") (simp_all split: option.splits)
qed

subsection \<open>The payload of a request that reaches the oracle\<close>

lemma aggregate_Value:
  assumes "aggregate e req = Value p"
  shows "\<exists>user us. findById (db_users e) (req_user_id req) = Some user
      \<and> userSkills (db_skills e) (u_skills user) = Value us
      \<and> (\<forall>q. q \<noteq> User_findOne_admin \<longrightarrow> \<not> db_fails e q)
      \<and> p = \<lparr>user_skills = us,
           skills_to_improve = (case targetSkills req of Some ts \<Rightarrow> ts | None \<Rightarrow> []),
           performance_reports = performanceReports (db_reports e) (req_user_id req),
           resources = formattedResources (db_users e)
             (allResources (db_resources e) (companyUserIds (db_users e) (req_user_company req))),
           skills = db_skills e,
           peer_data = peerData
             (userResourcesMap (allIDPs (db_idps e)
                (allUsers (db_users e) (req_user_id req) (req_user_company req))))
             (allUsers (db_users e) (req_user_id req) (req_user_company req)),
           limit = 10,
           persona = u_role user,
           custom_weights = getWeights e (u_company user),
           goal_text = goalText (latestIdp (db_idps e) (req_user_id req))\<rparr>"
proof -
  from assms obtain found
    where f: "await e User_findById (findById (db_users e) (req_user_id req)) = Value found"
    and rest: "(case found of None \<Rightarrow> Return404 | Some user \<Rightarrow>
      and_then (userSkills (db_skills e) (u_skills user)) (\<lambda>userSkills.
      and_then (await e IDP_findOne (latestIdp (db_idps e) (req_user_id req))) (\<lambda>latest.
      and_then (await e PerformanceReport_find (performanceReports (db_reports e) (req_user_id req))) (\<lambda>reports.
      and_then (await e Skill_find (db_skills e)) (\<lambda>allSkills.
      and_then (await e User_find_company (companyUserIds (db_users e) (req_user_company req))) (\<lambda>ids.
      and_then (await e Resource_find (allResources (db_resources e) ids)) (\<lambda>found_resources.
      and_then (await e User_find_peers (allUsers (db_users e) (req_user_id req) (req_user_company req))) (\<lambda>peers.
      and_then (await e IDP_find (allIDPs (db_idps e) peers)) (\<lambda>plans.
        Value
          \<lparr>user_skills = userSkills,
           skills_to_improve = (case targetSkills req of Some ts \<Rightarrow> ts | None \<Rightarrow> []),
           performance_reports = reports,
           resources = formattedResources (db_users e) found_resources,
           skills = allSkills,
           peer_data = peerData (userResourcesMap plans) peers,
           limit = 10,
           persona = u_role user,
           custom_weights = getWeights e (u_company user),
           goal_text = goalText latest\<rparr>))))))))) = Value p"
    unfolding aggregate_def Let_def and_then_Value_iff by blast
  from rest obtain user where u: "found = Some user" by (cases found) simp_all
  have q: "\<not> db_fails e q" if "q \<noteq> User_findOne_admin" for q
    using that f rest unfolding u
    by (cases q) (auto simp: and_then_Value_iff await_Value_iff)
  show ?thesis
    using f rest unfolding u
    by (auto simp: and_then_Value_iff await_Value_iff q)
qed

lemma aggregate_resources:
  "aggregate e req = Value p \<Longrightarrow>
   resources p = formattedResources (db_users e)
     (allResources (db_resources e) (companyUserIds (db_users e) (req_user_company req)))"
  by (drule aggregate_Value) auto

lemma aggregate_goal_text:
  "aggregate e req = Value p \<Longrightarrow> goal_text p = goalText (latestIdp (db_idps e) (req_user_id req))"
  by (drule aggregate_Value) auto

lemma aggregate_limit: "aggregate e req = Value p \<Longrightarrow> limit p = 10"
  by (drule aggregate_Value) auto

lemma aggregate_peer_data:
  "aggregate e req = Value p \<Longrightarrow>
   peer_data p = peerData
     (userResourcesMap (allIDPs (db_idps e)
        (allUsers (db_users e) (req_user_id req) (req_user_company req))))
     (allUsers (db_users e) (req_user_id req) (req_user_company req))"
  by (drule aggregate_Value) auto

lemma aggregate_Return404_iff:
  "aggregate e req = Return404 \<longleftrightarrow>
   \<not> db_fails e User_findById \<and> findById (db_users e) (req_user_id req) = None"
proof (cases "db_fails e User_findById")
  case True
  then show ?thesis by (simp add: aggregate_def await_def)
next
  case False
  show ?thesis
  proof (cases "findById (db_users e) (req_user_id req)")
    case None
    with False show ?thesis by (simp add: aggregate_def await_def)
  next
    case (Some user)
    with False show ?thesis
      by (simp add: aggregate_def Let_def and_then_Return404_iff await_Value_iff
          await_not_Return404 userSkills_not_Return404)
  qed
qed

subsection \<open>The handler's three answers\<close>

lemma reconcile_not_Return404: "reconcile frs a \<noteq> Return404"
  by (simp add: reconcile_def split: ai_response.splits recs_field.splits)

lemma getSuggestions_success:
  "aggregate e req = Value p \<Longrightarrow> dispatch e p = (AiObject (RecsArray recs), frs) \<Longrightarrow>
   getSuggestions e req = Response 200 (Recommendations (deduplicate frs recs))"
  by (simp add: getSuggestions_def reconcile_def)

lemma getSuggestions_200:
  assumes "getSuggestions e req = Response 200 (Recommendations out)"
  shows "\<exists>p recs frs. aggregate e req = Value p
           \<and> dispatch e p = (AiObject (RecsArray recs), frs)
           \<and> out = deduplicate frs recs"
proof (cases "aggregate e req")
  case Return404
  with assms show ?thesis by (simp add: getSuggestions_def)
next
  case (Throw m)
  with assms show ?thesis by (simp add: getSuggestions_def)
next
  case (Value p)
  obtain a frs where d: "dispatch e p = (a, frs)" by (cases "dispatch e p")
  from assms Value d have "\<exists>recs. a = AiObject (RecsArray recs) \<and> out = deduplicate frs recs"
    by (auto simp: getSuggestions_def reconcile_def split: ai_response.splits recs_field.splits)
  with Value d show ?thesis by blast
qed

lemma getSuggestions_404_iff:
  "status (getSuggestions e req) = 404 \<longleftrightarrow> aggregate e req = Return404"
proof (cases "aggregate e req")
  case (Value p)
  obtain a frs where d: "dispatch e p = (a, frs)" by (cases "dispatch e p")
  with Value show ?thesis
    by (cases "reconcile frs a") (simp_all add: getSuggestions_def reconcile_not_Return404)
qed (simp_all add: getSuggestions_def)

lemma reconcile_Value:
  "reconcile frs a = Value b \<Longrightarrow> b = Passthrough \<or> (\<exists>recs. b = Recommendations recs)"
  by (auto simp: reconcile_def split: ai_response.splits recs_field.splits)

lemma getSuggestions_cases:
  "(\<exists>recs. getSuggestions e req = Response 200 (Recommendations recs))
   \<or> getSuggestions e req = Response 200 Passthrough
   \<or> getSuggestions e req = Response 404 (Message ''User not found'')
   \<or> (\<exists>m. getSuggestions e req = Response 500 (Failure ''Failed to generate suggestions'' m))"
proof (cases "aggregate e req")
  case (Value p)
  obtain a frs where d: "dispatch e p = (a, frs)" by (cases "dispatch e p")
  show ?thesis
  proof (cases "reconcile frs a")
    case (Value b)
    from reconcile_Value[OF this] Value \<open>aggregate e req = Value p\<close> d
    show ?thesis by (auto simp: getSuggestions_def)
  qed (simp_all add: \<open>aggregate e req = Value p\<close> d getSuggestions_def)
qed (simp_all add: getSuggestions_def)

subsection \<open>The deduplication loop\<close>

lemma truthy_rId_iff:
  "truthy (rId r) \<longleftrightarrow> truthy (resourceId r) \<or> truthy (rec_uid r) \<or> truthy (rec_id r)"
  by (simp add: rId_def js_or_def)

lemma rId_backfill: "rId (backfill frs r) = rId r"
  by (simp add: backfill_def rId_def split: option.splits)

lemma forEach_rec_kept:
  "fst (forEach_rec frs rs (u, s)) = u @ map (backfill frs) (kept s rs)"
  by (induction rs arbitrary: u s) (simp_all add: Let_def)

lemma deduplicate_kept: "deduplicate frs recs = map (backfill frs) (kept {} recs)"
  by (simp add: deduplicate_def forEach_rec_kept)

lemma kept_subseq: "subseq (kept s rs) rs"
  by (induction rs arbitrary: s) auto

lemma kept_ids: "rId ` set (kept s rs) = {k \<in> rId ` set rs. truthy k \<and> k \<notin> s}"
  by (induction rs arbitrary: s) auto

lemma kept_distinct: "distinct (map rId (kept s rs))"
proof (induction rs arbitrary: s)
  case Nil
  show ?case by simp
next
  case (Cons r rs)
  have "rId r \<notin> rId ` set (kept (insert (rId r) s) rs)"
    by (simp add: kept_ids)
  with Cons show ?case by simp
qed

lemma kept_first:
  "y \<in> set (kept s rs) \<Longrightarrow> find (\<lambda>r. rId r = rId y) rs = Some y"
proof (induction rs arbitrary: s)
  case Nil
  then show ?case by simp
next
  case (Cons r rs)
  show ?case
  proof (cases "truthy (rId r) \<and> rId r \<notin> s")
    case True
    show ?thesis
    proof (cases "y = r")
      case True
      then show ?thesis by simp
    next
      case False
      with True Cons.prems have y: "y \<in> set (kept (insert (rId r) s) rs)" by simp
      then have "rId y \<in> rId ` set (kept (insert (rId r) s) rs)" by blast
      then have "rId y \<noteq> rId r" by (simp add: kept_ids)
      with Cons.IH[OF y] show ?thesis by simp
    qed
  next
    case False
    with Cons.prems have y: "y \<in> set (kept s rs)" by auto
    then have "rId y \<in> rId ` set (kept s rs)" by blast
    then have "truthy (rId y) \<and> rId y \<notin> s" by (simp add: kept_ids)
    with False have "rId y \<noteq> rId r" by auto
    with Cons.IH[OF y] show ?thesis by simp
  qed
qed

lemma length_kept: "length (kept s rs) \<le> length rs"
  by (induction rs arbitrary: s) (auto simp: le_SucI)

lemma length_deduplicate: "length (deduplicate frs recs) \<le> length recs"
  by (simp add: deduplicate_kept length_kept)

lemma distinct_deduplicate: "distinct (map rId (deduplicate frs recs))"
proof -
  have "map rId (deduplicate frs recs) = map rId (kept {} recs)"
    by (simp add: deduplicate_kept rId_backfill)
  then show ?thesis by (simp add: kept_distinct)
qed

lemma deduplicate_ids:
  "rId ` set (deduplicate frs recs) = {k \<in> rId ` set recs. truthy k}"
proof -
  have "rId ` set (deduplicate frs recs) = rId ` set (kept {} recs)"
    by (simp add: deduplicate_kept image_image rId_backfill)
  then show ?thesis by (simp add: kept_ids)
qed

subsection \<open>The random order\<close>

lemma mset_remove_nth:
  "i < length ys \<Longrightarrow> add_mset (ys ! i) (mset (take i ys) + mset (drop (Suc i) ys)) = mset ys"
proof -
  assume "i < length ys"
  then have "ys = take i ys @ ys ! i # drop (Suc i) ys" by (rule id_take_nth_drop)
  then have "mset ys = mset (take i ys @ ys ! i # drop (Suc i) ys)" by simp
  then show ?thesis by simp
qed

lemma mset_shuffle_by: "mset (shuffle_by cs xs) = mset xs"
proof (induction cs xs rule: shuffle_by.induct)
  case (3 c cs x xs)
  define i where "i = c mod Suc (length xs)"
  have i: "i < length (x # xs)" by (simp add: i_def)
  have "mset (shuffle_by (c # cs) (x # xs)) =
        add_mset ((x # xs) ! i) (mset (take i (x # xs) @ drop (Suc i) (x # xs)))"
    using "3.IH"[of i] by (simp add: i_def Let_def)
  also have "\<dots> = mset (x # xs)" using mset_remove_nth[OF i] by simp
  finally show ?case .
qed simp_all

lemma shuffle_by_complete: "mset ys = mset xs \<Longrightarrow> \<exists>cs. shuffle_by cs xs = ys"
proof (induction ys arbitrary: xs)
  case Nil
  then have "xs = []" by simp
  then have "shuffle_by [] xs = []" by simp
  then show ?case by blast
next
  case (Cons y ys)
  from Cons.prems have "y \<in> set xs" by (metis list.set_intros(1) set_mset_mset)
  then obtain i where i: "i < length xs" and yi: "xs ! i = y" by (auto simp: in_set_conv_nth)
  from i obtain x xs' where xs: "xs = x # xs'" by (cases xs) auto
  let ?rest = "take i xs @ drop (Suc i) xs"
  have "add_mset y (mset ?rest) = mset xs" using mset_remove_nth[OF i] yi by simp
  also have "\<dots> = add_mset y (mset ys)" using Cons.prems by simp
  finally have "mset ys = mset ?rest" by simp
  from Cons.IH[OF this] obtain cs where cs: "shuffle_by cs ?rest = ys" by blast
  have "i mod Suc (length xs') = i" using i xs by simp
  then have "shuffle_by (i # cs) xs = y # ys"
    using cs yi unfolding xs by (simp add: Let_def)
  then show ?case by blast
qed

subsection \<open>The two paths of the dispatcher\<close>

lemma dispatch_throws:
  "scoring_oracle e p = OracleThrows m \<Longrightarrow>
   dispatch e p =
     (AiObject (RecsArray (fallback (shuffle_by (random_choices e) (resources p)))),
      shuffle_by (random_choices e) (resources p))"
  by (simp add: dispatch_def Let_def)

lemma dispatch_returns:
  "scoring_oracle e p = OracleReturns a \<Longrightarrow> dispatch e p = (a, resources p)"
  by (simp add: dispatch_def)

lemma set_shuffle_by: "set (shuffle_by cs xs) = set xs"
  using mset_shuffle_by[of cs xs] by (metis set_mset_mset)

lemma length_shuffle_by: "length (shuffle_by cs xs) = length xs"
  using mset_shuffle_by[of cs xs] by (metis size_mset)

lemma length_fallback: "length (fallback sh) = min 10 (length sh)"
  by (simp add: fallback_def min.commute)

lemma set_kept_subset: "set (kept s rs) \<subseteq> set rs"
  by (induction rs arbitrary: s) auto

lemma deduplicate_elem:
  "x \<in> set (deduplicate frs recs) \<Longrightarrow> \<exists>r\<in>set recs. truthy (rId r) \<and> x = backfill frs r"
proof -
  assume "x \<in> set (deduplicate frs recs)"
  then obtain k where k: "k \<in> set (kept {} recs)" and x: "x = backfill frs k"
    by (auto simp: deduplicate_kept)
  from k have "rId k \<in> rId ` set (kept {} recs)" by blast
  then have "truthy (rId k)" by (simp add: kept_ids)
  moreover from k have "k \<in> set recs" using set_kept_subset by blast
  ultimately show ?thesis using x by blast
qed

lemma fallback_elem: "r \<in> set (fallback sh) \<Longrightarrow> \<exists>c\<in>set sh. r = fallback_item c"
  by (auto simp: fallback_def dest: in_set_takeD)

lemma rId_fallback_item:
  "rId (fallback_item c) = (if fr_id c = [] then None else Some (fr_id c))"
  by (simp add: rId_def js_or_def truthy_def fallback_item_def)

lemma fallback_answer:
  assumes "aggregate e req = Value p" and "scoring_oracle e p = OracleThrows m"
  shows "getSuggestions e req =
     Response 200 (Recommendations
       (deduplicate (shuffle_by (random_choices e) (resources p))
          (fallback (shuffle_by (random_choices e) (resources p)))))"
  using getSuggestions_success[OF assms(1) dispatch_throws[OF assms(2)]] .

lemma oracle_answer:
  assumes "aggregate e req = Value p"
    and "scoring_oracle e p = OracleReturns (AiObject (RecsArray recs))"
  shows "getSuggestions e req = Response 200 (Recommendations (deduplicate (resources p) recs))"
  using getSuggestions_success[OF assms(1) dispatch_returns[OF assms(2)]] .

lemma fallback_answer_elem:
  assumes "x \<in> set (deduplicate sh (fallback sh))"
  shows "\<exists>c\<in>set sh. x = backfill sh (fallback_item c) \<and> rId x = Some (fr_id c)"
proof -
  from deduplicate_elem[OF assms] obtain r
    where r: "r \<in> set (fallback sh)" and t: "truthy (rId r)" and x: "x = backfill sh r"
    by blast
  from fallback_elem[OF r] obtain c where c: "c \<in> set sh" and rc: "r = fallback_item c"
    by blast
  from t rc have "rId r = Some (fr_id c)"
    by (auto simp: rId_fallback_item truthy_def split: if_splits)
  with x have "rId x = Some (fr_id c)" by (simp add: rId_backfill)
  with c x rc show ?thesis by blast
qed

subsection \<open>The candidates\<close>

lemma fr_id_format_resource: "fr_id (format_resource us r) = r_id r"
  by (simp add: format_resource_def Let_def)

lemma candidate_origin:
  assumes "aggregate e req = Value p" and "c \<in> set (resources p)"
  shows "\<exists>r\<in>set (db_resources e). c = format_resource (db_users e) r
           \<and> (\<exists>u\<in>set (db_users e). u_id u = r_createdBy r \<and> u_company u = req_user_company req)"
proof -
  from assms obtain r where r: "r \<in> set (db_resources e)"
      and cb: "r_createdBy r \<in> set (companyUserIds (db_users e) (req_user_company req))"
      and c: "c = format_resource (db_users e) r"
    by (auto simp: aggregate_resources formattedResources_def allResources_def)
  from cb obtain u where "u \<in> set (db_users e)" "u_company u = req_user_company req"
      "u_id u = r_createdBy r"
    by (auto simp: companyUserIds_def)
  with r c show ?thesis by blast
qed

lemma distinct_map_eq:
  "distinct (map f xs) \<Longrightarrow> x \<in> set xs \<Longrightarrow> y \<in> set xs \<Longrightarrow> f x = f y \<Longrightarrow> x = y"
  by (meson distinct_map inj_onD)

lemma foreign_not_candidate:
  assumes p: "aggregate e req = Value p"
    and du: "distinct (map u_id (db_users e))"
    and dr: "distinct (map r_id (db_resources e))"
    and r: "r \<in> set (db_resources e)"
    and u: "u \<in> set (db_users e)"
    and cr: "u_id u = r_createdBy r"
    and other: "u_company u \<noteq> req_user_company req"
  shows "r_id r \<notin> fr_id ` set (resources p)"
proof
  assume "r_id r \<in> fr_id ` set (resources p)"
  then obtain c where c: "c \<in> set (resources p)" and id: "fr_id c = r_id r" by auto
  from candidate_origin[OF p c] obtain r' u'
    where r': "r' \<in> set (db_resources e)" and cf: "c = format_resource (db_users e) r'"
      and u': "u' \<in> set (db_users e)" and cr': "u_id u' = r_createdBy r'"
      and same: "u_company u' = req_user_company req"
    by blast
  from id cf have "r_id r' = r_id r" by (simp add: fr_id_format_resource)
  then have "r' = r" by (rule distinct_map_eq[OF dr r' r])
  with cr cr' have "u_id u' = u_id u" by simp
  then have "u' = u" by (rule distinct_map_eq[OF du u' u])
  with same other show False by simp
qed

lemma shuffle_by_Nil: "shuffle_by cs [] = []"
  by (cases cs) simp_all

subsection \<open>Descending order and the latest plan\<close>

lemma set_insert_desc: "set (insert_desc k x ys) = insert x (set ys)"
  by (induction ys) auto

lemma set_sort_desc: "set (sort_desc k xs) = set xs"
  by (induction xs) (simp_all add: sort_desc_def set_insert_desc)

lemma descending_insert_desc:
  "sorted_wrt (\<lambda>a b. k b \<le> k a) ys \<Longrightarrow> sorted_wrt (\<lambda>a b. k b \<le> k a) (insert_desc k x ys)"
proof (induction ys)
  case Nil
  show ?case by simp
next
  case (Cons y ys)
  show ?case
  proof (cases "k y \<le> k x")
    case True
    with Cons.prems show ?thesis by (auto intro: order_trans)
  next
    case False
    with Cons show ?thesis by (auto simp: set_insert_desc)
  qed
qed

lemma descending_sort_desc: "sorted_wrt (\<lambda>a b. k b \<le> k a) (sort_desc k xs)"
proof (induction xs)
  case Nil
  show ?case by (simp add: sort_desc_def)
next
  case (Cons x xs)
  then have "sorted_wrt (\<lambda>a b. k b \<le> k a) (insert_desc k x (sort_desc k xs))"
    by (rule descending_insert_desc)
  then show ?case by (simp add: sort_desc_def)
qed

lemma sort_desc_head:
  assumes "sort_desc k xs = y # ys"
  shows "y \<in> set xs \<and> (\<forall>x\<in>set xs. k x \<le> k y)"
proof -
  have s: "set xs = insert y (set ys)"
    using set_sort_desc[of k xs] assms by simp
  have "sorted_wrt (\<lambda>a b. k b \<le> k a) (y # ys)"
    using descending_sort_desc[of k xs] assms by simp
  then have "\<forall>x\<in>set ys. k x \<le> k y" by simp
  with s show ?thesis by simp
qed

lemma latestIdp_None:
  "latestIdp idps uid = None \<longleftrightarrow> (\<forall>i\<in>set idps. \<not> eligible_plan uid i)"
proof -
  have "latestIdp idps uid = None \<longleftrightarrow> sort_desc idp_createdAt (filter (eligible_plan uid) idps) = []"
    by (simp add: latestIdp_def split: list.splits)
  also have "\<dots> \<longleftrightarrow> set (sort_desc idp_createdAt (filter (eligible_plan uid) idps)) = {}"
    by simp
  also have "\<dots> \<longleftrightarrow> (\<forall>i\<in>set idps. \<not> eligible_plan uid i)"
    by (auto simp: set_sort_desc)
  finally show ?thesis .
qed

lemma latestIdp_Some:
  assumes "latestIdp idps uid = Some i"
  shows "i \<in> set idps \<and> eligible_plan uid i
     \<and> (\<forall>j\<in>set idps. eligible_plan uid j \<longrightarrow> idp_createdAt j \<le> idp_createdAt i)"
proof -
  from assms obtain rest
    where "sort_desc idp_createdAt (filter (eligible_plan uid) idps) = i # rest"
    by (auto simp: latestIdp_def split: list.splits)
  from sort_desc_head[OF this] show ?thesis by auto
qed

lemma eligible_plan_iff:
  "eligible_plan uid i \<longleftrightarrow>
   idp_employee i = uid
   \<and> (idp_status i = ''draft'' \<or> idp_status i = ''pending'' \<or> idp_status i = ''approved'')"
  by (auto simp: eligible_plan_def)

subsection \<open>Provider enrichment\<close>

lemma find_user_by_id:
  "i \<in> u_id ` set us \<Longrightarrow> \<exists>u\<in>set us. u_id u = i \<and> find (\<lambda>u. u_id u = i) us = Some u"
  by (induction us) auto

lemma fr_provider_format_resource:
  "fr_provider (format_resource us r) =
     (if r_provider r = None \<or> r_provider r = Some [] \<or> r_provider r = Some ''Unknown''
      then creator_or_unknown (populate_createdBy us r)
      else case r_provider r of Some pv \<Rightarrow> pv | None \<Rightarrow> [])"
  by (simp add: format_resource_def Let_def split: option.splits)

lemma candidate_provider:
  assumes "aggregate e req = Value p" and "c \<in> set (resources p)"
  shows "\<exists>r\<in>set (db_resources e). \<exists>u\<in>set (db_users e).
            c = format_resource (db_users e) r
          \<and> find (\<lambda>u. u_id u = r_createdBy r) (db_users e) = Some u
          \<and> (if r_provider r = None \<or> r_provider r = Some [] \<or> r_provider r = Some ''Unknown''
             then fr_provider c = u_name u
             else r_provider r = Some (fr_provider c))"
proof -
  from candidate_origin[OF assms] obtain r u'
    where r: "r \<in> set (db_resources e)" and c: "c = format_resource (db_users e) r"
      and u': "u' \<in> set (db_users e)" "u_id u' = r_createdBy r"
    by blast
  from u' have "r_createdBy r \<in> u_id ` set (db_users e)" by force
  from find_user_by_id[OF this] obtain u
    where u: "u \<in> set (db_users e)" and f: "find (\<lambda>u. u_id u = r_createdBy r) (db_users e) = Some u"
    by blast
  from f have "creator_or_unknown (populate_createdBy (db_users e) r) = u_name u"
    by (simp add: populate_createdBy_def creator_or_unknown_def)
  then have "if r_provider r = None \<or> r_provider r = Some [] \<or> r_provider r = Some ''Unknown''
             then fr_provider c = u_name u
             else r_provider r = Some (fr_provider c)"
    unfolding c fr_provider_format_resource by (auto split: option.splits)
  with r u c f show ?thesis by blast
qed

lemma dispatch_frs: "dispatch e p = (a, frs) \<Longrightarrow> set frs = set (resources p)"
  by (auto simp: dispatch_def Let_def set_shuffle_by split: oracle_outcome.splits)

lemma backfill_cases:
  "if (\<not> truthy (provider r) \<or> provider r = Some ''Unknown'')
      \<and> (\<exists>c\<in>set frs. Some (fr_id c) = rId r)
   then \<exists>c\<in>set frs. Some (fr_id c) = rId r \<and> backfill frs r = r\<lparr>provider := Some (fr_provider c)\<rparr>
   else backfill frs r = r"
proof (cases "originalRes frs r")
  case None
  then have "\<not> (\<exists>c\<in>set frs. Some (fr_id c) = rId r)"
    by (simp add: originalRes_def find_None_iff)
  with None show ?thesis by (simp add: backfill_def)
next
  case (Some c)
  then have "c \<in> set frs \<and> Some (fr_id c) = rId r"
    by (auto simp: originalRes_def find_Some_iff in_set_conv_nth)
  with Some show ?thesis by (auto simp: backfill_def)
qed

subsection \<open>The peers and what they consumed\<close>

lemma set_fold_set_add: "set (fold set_add ys s) = set s \<union> set ys"
  by (induction ys arbitrary: s) (auto simp: set_add_def)

lemma distinct_fold_set_add: "distinct s \<Longrightarrow> distinct (fold set_add ys s)"
  by (induction ys arbitrary: s) (auto simp: set_add_def)

lemma members_add_idp:
  "members (add_idp i m) k =
     (if k = idp_employee i then fold set_add (idp_recommendedResources i) (members m k)
      else members m k)"
  by (simp add: add_idp_def members_def Let_def)

lemma set_members_fold_add_idp:
  "set (members (fold add_idp idps m) k) =
     set (members m k) \<union> (\<Union>i\<in>{i \<in> set idps. idp_employee i = k}. set (idp_recommendedResources i))"
  by (induction idps arbitrary: m) (auto simp: members_add_idp set_fold_set_add)

lemma distinct_members_fold_add_idp:
  "distinct (members m k) \<Longrightarrow> distinct (members (fold add_idp idps m) k)"
proof (induction idps arbitrary: m)
  case Nil
  then show ?case by simp
next
  case (Cons i idps)
  from Cons.prems have "distinct (members (add_idp i m) k)"
    by (cases "k = idp_employee i") (simp_all add: members_add_idp distinct_fold_set_add)
  from Cons.IH[OF this] show ?case by simp
qed

lemma members_empty: "members Map.empty k = []"
  by (simp add: members_def)

lemma set_members_userResourcesMap:
  "set (members (userResourcesMap idps) k) =
     (\<Union>i\<in>{i \<in> set idps. idp_employee i = k}. set (idp_recommendedResources i))"
  by (simp add: userResourcesMap_def set_members_fold_add_idp members_empty)

lemma distinct_members_userResourcesMap: "distinct (members (userResourcesMap idps) k)"
  unfolding userResourcesMap_def
  by (rule distinct_members_fold_add_idp) (simp add: members_empty)

lemma counted_plans_of_peer:
  assumes "u \<in> set peers"
  shows "{i \<in> set (allIDPs idps peers). idp_employee i = u_id u} =
         {i \<in> set idps. idp_employee i = u_id u
            \<and> (idp_status i = ''approved'' \<or> idp_status i = ''completed'')}"
  using assms by (auto simp: allIDPs_def counted_plan_def)

lemma peerData_elem:
  "q \<in> set (peerData m peers) \<longleftrightarrow>
   (\<exists>u\<in>set peers. q = peer_of m u) \<and> (peer_resources q \<noteq> [] \<or> peer_skills q \<noteq> [])"
  by (auto simp: peerData_def)

lemma peer_of_simps:
  "userId (peer_of m u) = u_id u"
  "peer_resources (peer_of m u) = members m (u_id u)"
  "map skillId (peer_skills (peer_of m u)) = map skillId (u_skills u)"
  "peer_skills (peer_of m u) = [] \<longleftrightarrow> u_skills u = []"
  by (simp_all add: peer_of_def comp_def)

lemma userSkills_Value_populated:
  "userSkills ss xs = Value us \<Longrightarrow> \<forall>s\<in>set xs. populate_skill ss s \<noteq> None"
proof (induction xs arbitrary: us)
  case Nil
  show ?case by simp
next
  case (Cons s rest)
  from Cons.prems obtain k where k: "populate_skill ss s = Some k"
    by (cases "populate_skill ss s") simp_all
  with Cons.prems obtain acc where "userSkills ss rest = Value acc"
    by (auto simp: and_then_Value_iff)
  from Cons.IH[OF this] k show ?case by simp
qed

subsection \<open>Failures of the aggregation\<close>

lemma getSuggestions_Throw:
  "aggregate e req = Throw m \<Longrightarrow>
   getSuggestions e req = Response 500 (Failure ''Failed to generate suggestions'' m)"
  by (simp add: getSuggestions_def)

lemma getSuggestions_Return404:
  "aggregate e req = Return404 \<Longrightarrow> getSuggestions e req = Response 404 (Message ''User not found'')"
  by (simp add: getSuggestions_def)

lemma aggregate_failure:
  assumes "db_fails e User_findById
     \<or> (\<exists>user. findById (db_users e) (req_user_id req) = Some user
          \<and> ((\<exists>q. q \<noteq> User_findOne_admin \<and> db_fails e q)
             \<or> (\<exists>s\<in>set (u_skills user). populate_skill (db_skills e) s = None)))"
  shows "\<exists>m. aggregate e req = Throw m"
proof (cases "aggregate e req")
  case Return404
  with assms show ?thesis
    unfolding aggregate_Return404_iff by auto
next
  case (Throw m)
  then show ?thesis by blast
next
  case (Value p)
  from aggregate_Value[OF Value] obtain user us
    where u: "findById (db_users e) (req_user_id req) = Some user"
      and s: "userSkills (db_skills e) (u_skills user) = Value us"
      and q: "\<forall>q. q \<noteq> User_findOne_admin \<longrightarrow> \<not> db_fails e q"
    by blast
  from userSkills_Value_populated[OF s]
  have "\<forall>s\<in>set (u_skills user). populate_skill (db_skills e) s \<noteq> None" .
  with assms u q have False by auto
  then show ?thesis ..
qed

section \<open>The claims\<close>

text \<open>
  Claim C1. Whenever the handler answers 200, on the oracle path and on the fallback
  path, no two items of the returned list resolve to the same identifier, where the
  identifier of an item is its \<^verbatim>\<open>resourceId\<close> if truthy, else its
  \<^verbatim>\<open>_id\<close> if truthy, else its \<^verbatim>\<open>id\<close>. The returned list is the
  list \<open>ks\<close> of kept items after the provider assignment, where \<open>ks\<close> is a subsequence
  of the list before reconciliation (so first-seen order is preserved), every kept item is
  the first item of that list with its identifier, and every truthy identifier of that
  list is the identifier of a kept item.
\<close>

theorem no_duplicate_identifiers:
  assumes "getSuggestions e req = Response 200 (Recommendations out)"
  shows "distinct (map rId out)
    \<and> (\<forall>x\<in>set out. rId x =
          (if truthy (resourceId x) then resourceId x
           else if truthy (rec_uid x) then rec_uid x else rec_id x))
    \<and> (\<exists>p recs frs ks.
          aggregate e req = Value p
        \<and> dispatch e p = (AiObject (RecsArray recs), frs)
        \<and> out = map (backfill frs) ks
        \<and> subseq ks recs
        \<and> (\<forall>k\<in>set ks. find (\<lambda>r. rId r = rId k) recs = Some k)
        \<and> (\<forall>r\<in>set recs. truthy (rId r) \<longrightarrow> rId r \<in> rId ` set ks))"
proof -
  from getSuggestions_200[OF assms] obtain p recs frs
    where p: "aggregate e req = Value p"
      and d: "dispatch e p = (AiObject (RecsArray recs), frs)"
      and out: "out = deduplicate frs recs"
    by auto
  have 1: "distinct (map rId out)"
    unfolding out by (rule distinct_deduplicate)
  have 2: "\<forall>x\<in>set out. rId x =
          (if truthy (resourceId x) then resourceId x
           else if truthy (rec_uid x) then rec_uid x else rec_id x)"
    by (simp add: rId_def js_or_def)
  let ?ks = "kept {} recs"
  have a: "out = map (backfill frs) ?ks" by (simp add: out deduplicate_kept)
  have b: "subseq ?ks recs" by (rule kept_subseq)
  have c: "\<forall>k\<in>set ?ks. find (\<lambda>r. rId r = rId k) recs = Some k"
    using kept_first by blast
  have d': "\<forall>r\<in>set recs. truthy (rId r) \<longrightarrow> rId r \<in> rId ` set ?ks"
    by (simp add: kept_ids)
  from p d a b c d' have 3: "\<exists>p recs frs ks.
          aggregate e req = Value p
        \<and> dispatch e p = (AiObject (RecsArray recs), frs)
        \<and> out = map (backfill frs) ks
        \<and> subseq ks recs
        \<and> (\<forall>k\<in>set ks. find (\<lambda>r. rId r = rId k) recs = Some k)
        \<and> (\<forall>r\<in>set recs. truthy (rId r) \<longrightarrow> rId r \<in> rId ` set ks)"
    by blast
  from 1 2 3 show ?thesis by blast
qed

theorem no_duplicate_identifiers_witness:
  "getSuggestions echo_env demo_req = Response 200 (Recommendations echo_out)
   \<and> distinct (map rId echo_out)
   \<and> map rId echo_out = [Some ''r1'', Some ''r2'']"
proof -
  have h: "getSuggestions echo_env demo_req = Response 200 (Recommendations echo_out)"
    by code_simp
  have "distinct (map rId echo_out)"
    using no_duplicate_identifiers[OF h] by blast
  moreover have "map rId echo_out = [Some ''r1'', Some ''r2'']" by code_simp
  ultimately show ?thesis using h by blast
qed

text \<open>
  Claim C10. Whenever the handler answers 200, every returned item has a truthy (present
  and non-empty) value in at least one of \<^verbatim>\<open>resourceId\<close>, \<^verbatim>\<open>_id\<close>
  and \<^verbatim>\<open>id\<close>. An item of the list before reconciliation whose three
  identifier fields are all absent or falsy is not in the returned list, with or without
  the provider assignment, and the returned list has exactly one item per truthy
  identifier, so such an item takes no place in it.
\<close>

theorem identifier_present:
  assumes "getSuggestions e req = Response 200 (Recommendations out)"
  shows "(\<forall>x\<in>set out. truthy (resourceId x) \<or> truthy (rec_uid x) \<or> truthy (rec_id x))
    \<and> (\<exists>p recs frs.
          aggregate e req = Value p
        \<and> dispatch e p = (AiObject (RecsArray recs), frs)
        \<and> (\<forall>r\<in>set recs.
              \<not> truthy (resourceId r) \<and> \<not> truthy (rec_uid r) \<and> \<not> truthy (rec_id r) \<longrightarrow>
              r \<notin> set out \<and> backfill frs r \<notin> set out)
        \<and> length out = card {k \<in> rId ` set recs. truthy k})"
proof -
  from getSuggestions_200[OF assms] obtain p recs frs
    where p: "aggregate e req = Value p"
      and d: "dispatch e p = (AiObject (RecsArray recs), frs)"
      and out: "out = deduplicate frs recs"
    by auto
  have ids: "rId ` set out = {k \<in> rId ` set recs. truthy k}"
    unfolding out by (rule deduplicate_ids)
  have t: "truthy (rId x)" if "x \<in> set out" for x
  proof -
    from that have "rId x \<in> rId ` set out" by blast
    with ids show ?thesis by blast
  qed
  have 1: "\<forall>x\<in>set out. truthy (resourceId x) \<or> truthy (rec_uid x) \<or> truthy (rec_id x)"
    using t by (simp add: truthy_rId_iff)
  have 2: "r \<notin> set out \<and> backfill frs r \<notin> set out"
    if "\<not> truthy (resourceId r) \<and> \<not> truthy (rec_uid r) \<and> \<not> truthy (rec_id r)" for r
  proof -
    from that have n: "\<not> truthy (rId r)" by (simp add: truthy_rId_iff)
    then have "\<not> truthy (rId (backfill frs r))" by (simp add: rId_backfill)
    with n t show ?thesis by blast
  qed
  have "length out = length (map rId out)" by simp
  also have "\<dots> = card (set (map rId out))"
    using distinct_card[OF distinct_deduplicate[of frs recs]] unfolding out by simp
  also have "\<dots> = card {k \<in> rId ` set recs. truthy k}" using ids by simp
  finally have 3: "length out = card {k \<in> rId ` set recs. truthy k}" .
  from p d 2 3 have "\<exists>p recs frs.
          aggregate e req = Value p
        \<and> dispatch e p = (AiObject (RecsArray recs), frs)
        \<and> (\<forall>r\<in>set recs.
              \<not> truthy (resourceId r) \<and> \<not> truthy (rec_uid r) \<and> \<not> truthy (rec_id r) \<longrightarrow>
              r \<notin> set out \<and> backfill frs r \<notin> set out)
        \<and> length out = card {k \<in> rId ` set recs. truthy k}"
    by blast
  with 1 show ?thesis by blast
qed

theorem identifier_present_witness:
  "getSuggestions echo_env demo_req = Response 200 (Recommendations echo_out)
   \<and> length echo_recs = 4 \<and> length echo_out = 2
   \<and> list_all (\<lambda>x. truthy (resourceId x) \<or> truthy (rec_uid x) \<or> truthy (rec_id x)) echo_out"
proof -
  have h: "getSuggestions echo_env demo_req = Response 200 (Recommendations echo_out)"
    by code_simp
  have "\<forall>x\<in>set echo_out. truthy (resourceId x) \<or> truthy (rec_uid x) \<or> truthy (rec_id x)"
    using identifier_present[OF h] by blast
  then have "list_all (\<lambda>x. truthy (resourceId x) \<or> truthy (rec_uid x) \<or> truthy (rec_id x)) echo_out"
    by (simp add: list_all_iff)
  moreover have "length echo_recs = 4" "length echo_out = 2" by code_simp+
  ultimately show ?thesis using h by blast
qed

text \<open>
  Claim C2, as stated, fails: when the oracle call resolves to an object without
  \<^verbatim>\<open>recommendations\<close> (malformed data), no fallback runs and the handler
  answers 500.
\<close>

theorem malformed_answer_counterexample:
  "aggregate malformed_env demo_req = Value demo_payload
   \<and> scoring_oracle malformed_env demo_payload = OracleReturns (AiObject RecsAbsent)
   \<and> getSuggestions malformed_env demo_req =
       Response 500 (Failure ''Failed to generate suggestions'' ''Cannot read properties of undefined'')"
  by code_simp

text \<open>
  Claim C2, amended. Whenever the oracle call rejects (throws), the handler answers 200
  with the deduplicated fallback list: the first ten candidates in a random order of all
  the candidates, each mapped to the response shape. The list has at most ten items, each
  built from a candidate of the payload, and it is empty when there are no candidates.
\<close>

theorem fallback_on_rejection:
  assumes "aggregate e req = Value p" and "scoring_oracle e p = OracleThrows m"
  shows "\<exists>out sh.
       getSuggestions e req = Response 200 (Recommendations out)
     \<and> sh = shuffle_by (random_choices e) (resources p)
     \<and> mset sh = mset (resources p)
     \<and> out = deduplicate sh (fallback sh)
     \<and> length out \<le> 10
     \<and> (\<forall>x\<in>set out. \<exists>c\<in>set (resources p). x = backfill sh (fallback_item c))
     \<and> (resources p = [] \<longrightarrow> out = [])"
proof -
  let ?sh = "shuffle_by (random_choices e) (resources p)"
  let ?out = "deduplicate ?sh (fallback ?sh)"
  have 1: "getSuggestions e req = Response 200 (Recommendations ?out)"
    using assms by (rule fallback_answer)
  have 2: "mset ?sh = mset (resources p)" by (rule mset_shuffle_by)
  have "length ?out \<le> length (fallback ?sh)" by (rule length_deduplicate)
  then have 3: "length ?out \<le> 10" by (simp add: length_fallback)
  have 4: "\<forall>x\<in>set ?out. \<exists>c\<in>set (resources p). x = backfill ?sh (fallback_item c)"
  proof
    fix x assume "x \<in> set ?out"
    from fallback_answer_elem[OF this] show "\<exists>c\<in>set (resources p). x = backfill ?sh (fallback_item c)"
      by (auto simp: set_shuffle_by)
  qed
  have 5: "resources p = [] \<longrightarrow> ?out = []"
    by (simp add: fallback_def deduplicate_def shuffle_by_Nil)
  from 1 2 3 4 5 show ?thesis by blast
qed

theorem fallback_on_rejection_witness:
  "aggregate demo_env demo_req = Value demo_payload
   \<and> scoring_oracle demo_env demo_payload = OracleThrows ''ECONNREFUSED''
   \<and> getSuggestions demo_env demo_req = Response 200 (Recommendations fallback_out)
   \<and> length fallback_out \<le> 10
   \<and> aggregate empty_env demo_req = Value empty_payload
   \<and> scoring_oracle empty_env empty_payload = OracleThrows ''ECONNREFUSED''
   \<and> getSuggestions empty_env demo_req = Response 200 (Recommendations [])"
proof -
  have a: "aggregate demo_env demo_req = Value demo_payload" by code_simp
  have b: "scoring_oracle demo_env demo_payload = OracleThrows ''ECONNREFUSED''" by code_simp
  have c: "getSuggestions demo_env demo_req = Response 200 (Recommendations fallback_out)"
    by code_simp
  from fallback_on_rejection[OF a b] obtain out
    where "getSuggestions demo_env demo_req = Response 200 (Recommendations out)"
      and "length out \<le> 10" by blast
  with c have d: "length fallback_out \<le> 10" by simp
  have a': "aggregate empty_env demo_req = Value empty_payload" by code_simp
  have b': "scoring_oracle empty_env empty_payload = OracleThrows ''ECONNREFUSED''" by code_simp
  have r: "resources empty_payload = []" by code_simp
  from fallback_on_rejection[OF a' b'] r
  have c': "getSuggestions empty_env demo_req = Response 200 (Recommendations [])" by auto
  from a b c d a' b' c' show ?thesis by blast
qed

text \<open>
  Claim C3, as stated, fails on the oracle path: the handler sends the limit 10 in the
  payload but does not truncate what the oracle returns, so eleven different items from
  the oracle are all returned.
\<close>

theorem eleven_items_counterexample:
  "aggregate eleven_env demo_req = Value demo_payload
   \<and> limit demo_payload = 10
   \<and> scoring_oracle eleven_env demo_payload = OracleReturns (AiObject (RecsArray eleven_recs))
   \<and> getSuggestions eleven_env demo_req = Response 200 (Recommendations eleven_recs)
   \<and> length eleven_recs = 11"
  by code_simp

text \<open>
  Claim C3, amended. The limit is the constant 10, sent to the oracle in the payload. On
  the fallback path the returned list has at most 10 items and at most as many as there
  are candidates: the truncation to 10 comes before the deduplication, which only removes
  items. On the oracle path the returned list is at most as long as the list the oracle
  returned, which the handler does not truncate.
\<close>

theorem length_bounds:
  assumes "aggregate e req = Value p"
  shows "limit p = 10
    \<and> (\<forall>m. scoring_oracle e p = OracleThrows m \<longrightarrow>
          (\<exists>out. getSuggestions e req = Response 200 (Recommendations out)
                \<and> out = deduplicate (shuffle_by (random_choices e) (resources p))
                          (map fallback_item (take 10 (shuffle_by (random_choices e) (resources p))))
                \<and> length out \<le> min 10 (length (resources p))))
    \<and> (\<forall>recs. scoring_oracle e p = OracleReturns (AiObject (RecsArray recs)) \<longrightarrow>
          (\<exists>out. getSuggestions e req = Response 200 (Recommendations out)
                \<and> length out \<le> length recs))"
proof -
  have 1: "limit p = 10" using assms by (rule aggregate_limit)
  have 2: "\<exists>out. getSuggestions e req = Response 200 (Recommendations out)
                \<and> out = deduplicate (shuffle_by (random_choices e) (resources p))
                          (map fallback_item (take 10 (shuffle_by (random_choices e) (resources p))))
                \<and> length out \<le> min 10 (length (resources p))"
    if t: "scoring_oracle e p = OracleThrows m" for m
  proof -
    let ?sh = "shuffle_by (random_choices e) (resources p)"
    have "length (deduplicate ?sh (fallback ?sh)) \<le> length (fallback ?sh)"
      by (rule length_deduplicate)
    then have "length (deduplicate ?sh (fallback ?sh)) \<le> min 10 (length (resources p))"
      by (simp add: length_fallback length_shuffle_by)
    with fallback_answer[OF assms t] show ?thesis by (simp add: fallback_def)
  qed
  have 3: "\<exists>out. getSuggestions e req = Response 200 (Recommendations out) \<and> length out \<le> length recs"
    if r: "scoring_oracle e p = OracleReturns (AiObject (RecsArray recs))" for recs
    using oracle_answer[OF assms r] length_deduplicate[of "resources p" recs] by simp
  from 1 2 3 show ?thesis by blast
qed

theorem length_bounds_witness:
  "aggregate demo_env demo_req = Value demo_payload
   \<and> scoring_oracle demo_env demo_payload = OracleThrows ''ECONNREFUSED''
   \<and> getSuggestions demo_env demo_req = Response 200 (Recommendations fallback_out)
   \<and> length fallback_out \<le> min 10 (length (resources demo_payload))
   \<and> aggregate echo_env demo_req = Value demo_payload
   \<and> scoring_oracle echo_env demo_payload = OracleReturns (AiObject (RecsArray echo_recs))
   \<and> getSuggestions echo_env demo_req = Response 200 (Recommendations echo_out)
   \<and> length echo_out \<le> length echo_recs"
proof -
  have a: "aggregate demo_env demo_req = Value demo_payload" by code_simp
  have b: "scoring_oracle demo_env demo_payload = OracleThrows ''ECONNREFUSED''" by code_simp
  have c: "getSuggestions demo_env demo_req = Response 200 (Recommendations fallback_out)"
    by code_simp
  from length_bounds[OF a] b obtain out
    where "getSuggestions demo_env demo_req = Response 200 (Recommendations out)"
      and "length out \<le> min 10 (length (resources demo_payload))" by blast
  with c have d: "length fallback_out \<le> min 10 (length (resources demo_payload))" by simp
  have a': "aggregate echo_env demo_req = Value demo_payload" by code_simp
  have b': "scoring_oracle echo_env demo_payload = OracleReturns (AiObject (RecsArray echo_recs))"
    by code_simp
  have c': "getSuggestions echo_env demo_req = Response 200 (Recommendations echo_out)"
    by code_simp
  from length_bounds[OF a'] b' obtain out'
    where "getSuggestions echo_env demo_req = Response 200 (Recommendations out')"
      and "length out' \<le> length echo_recs" by blast
  with c' have d': "length echo_out \<le> length echo_recs" by simp
  from a b c d a' b' c' d' show ?thesis by blast
qed

text \<open>
  Claim C4, as stated, fails on the oracle path: the handler does not check the oracle's
  items against the candidates, so an item that names a resource created by a user of
  another company is returned.
\<close>

theorem foreign_item_counterexample:
  "getSuggestions leak_env demo_req = Response 200 (Recommendations [foreign_item])
   \<and> rId foreign_item = Some (r_id res3)
   \<and> res3 \<in> set (db_resources leak_env)
   \<and> bob \<in> set (db_users leak_env)
   \<and> r_createdBy res3 = u_id bob
   \<and> u_company bob = ''B''
   \<and> req_user_company demo_req = ''A''"
  by code_simp

text \<open>
  Claim C4, amended. Every candidate sent to the oracle is a stored resource whose creator
  is a user of the requester's company. With identifiers unique in the user store and in
  the resource store, no resource created by a user of another company is among the
  candidates, nor is its identifier in the list returned on the fallback path. On the
  oracle path the returned identifiers are among those the oracle returned, which the
  handler does not compare with the candidates.
\<close>

theorem tenant_scoped_candidates:
  assumes "aggregate e req = Value p"
  shows "(\<forall>c\<in>set (resources p). \<exists>r\<in>set (db_resources e).
            c = format_resource (db_users e) r
          \<and> (\<exists>u\<in>set (db_users e). u_id u = r_createdBy r \<and> u_company u = req_user_company req))
    \<and> (distinct (map u_id (db_users e)) \<and> distinct (map r_id (db_resources e)) \<longrightarrow>
         (\<forall>r\<in>set (db_resources e). \<forall>u\<in>set (db_users e).
             u_id u = r_createdBy r \<and> u_company u \<noteq> req_user_company req \<longrightarrow>
               r_id r \<notin> fr_id ` set (resources p)
             \<and> (\<forall>m out. scoring_oracle e p = OracleThrows m
                    \<and> getSuggestions e req = Response 200 (Recommendations out) \<longrightarrow>
                    Some (r_id r) \<notin> rId ` set out)))
    \<and> (\<forall>recs out. scoring_oracle e p = OracleReturns (AiObject (RecsArray recs))
            \<and> getSuggestions e req = Response 200 (Recommendations out) \<longrightarrow>
            rId ` set out \<subseteq> rId ` set recs)"
proof -
  have 1: "\<forall>c\<in>set (resources p). \<exists>r\<in>set (db_resources e).
            c = format_resource (db_users e) r
          \<and> (\<exists>u\<in>set (db_users e). u_id u = r_createdBy r \<and> u_company u = req_user_company req)"
    using candidate_origin[OF assms] by blast
  have 2: "distinct (map u_id (db_users e)) \<and> distinct (map r_id (db_resources e)) \<longrightarrow>
         (\<forall>r\<in>set (db_resources e). \<forall>u\<in>set (db_users e).
             u_id u = r_createdBy r \<and> u_company u \<noteq> req_user_company req \<longrightarrow>
               r_id r \<notin> fr_id ` set (resources p)
             \<and> (\<forall>m out. scoring_oracle e p = OracleThrows m
                    \<and> getSuggestions e req = Response 200 (Recommendations out) \<longrightarrow>
                    Some (r_id r) \<notin> rId ` set out))"
  proof (intro impI ballI)
    fix r u
    assume d: "distinct (map u_id (db_users e)) \<and> distinct (map r_id (db_resources e))"
      and r: "r \<in> set (db_resources e)" and u: "u \<in> set (db_users e)"
      and f: "u_id u = r_createdBy r \<and> u_company u \<noteq> req_user_company req"
    from d have du: "distinct (map u_id (db_users e))"
      and dr: "distinct (map r_id (db_resources e))" by simp_all
    from f have cr: "u_id u = r_createdBy r"
      and other: "u_company u \<noteq> req_user_company req" by simp_all
    have n: "r_id r \<notin> fr_id ` set (resources p)"
      using assms du dr r u cr other by (rule foreign_not_candidate)
    have "\<forall>m out. scoring_oracle e p = OracleThrows m
              \<and> getSuggestions e req = Response 200 (Recommendations out) \<longrightarrow>
              Some (r_id r) \<notin> rId ` set out"
    proof (intro allI impI notI)
      fix m out
      assume tg: "scoring_oracle e p = OracleThrows m
              \<and> getSuggestions e req = Response 200 (Recommendations out)"
        and "Some (r_id r) \<in> rId ` set out"
      then obtain x where x: "x \<in> set out" and ix: "rId x = Some (r_id r)" by auto
      from tg have t: "scoring_oracle e p = OracleThrows m"
        and g: "getSuggestions e req = Response 200 (Recommendations out)" by simp_all
      let ?sh = "shuffle_by (random_choices e) (resources p)"
      from fallback_answer[OF assms t] g have "out = deduplicate ?sh (fallback ?sh)" by simp
      with x have "x \<in> set (deduplicate ?sh (fallback ?sh))" by simp
      from fallback_answer_elem[OF this] obtain c
        where c: "c \<in> set ?sh" and ic: "rId x = Some (fr_id c)" by blast
      from c have "fr_id c \<in> fr_id ` set (resources p)" by (simp add: set_shuffle_by)
      moreover from ix ic have "fr_id c = r_id r" by simp
      ultimately have "r_id r \<in> fr_id ` set (resources p)" by simp
      with n show False by simp
    qed
    with n show "r_id r \<notin> fr_id ` set (resources p)
             \<and> (\<forall>m out. scoring_oracle e p = OracleThrows m
                    \<and> getSuggestions e req = Response 200 (Recommendations out) \<longrightarrow>
                    Some (r_id r) \<notin> rId ` set out)" by (rule conjI)
  qed
  have 3: "\<forall>recs out. scoring_oracle e p = OracleReturns (AiObject (RecsArray recs))
            \<and> getSuggestions e req = Response 200 (Recommendations out) \<longrightarrow>
            rId ` set out \<subseteq> rId ` set recs"
  proof (intro allI impI)
    fix recs out
    assume og: "scoring_oracle e p = OracleReturns (AiObject (RecsArray recs))
            \<and> getSuggestions e req = Response 200 (Recommendations out)"
    then have o: "scoring_oracle e p = OracleReturns (AiObject (RecsArray recs))"
      and g: "getSuggestions e req = Response 200 (Recommendations out)" by simp_all
    from oracle_answer[OF assms o] g have "out = deduplicate (resources p) recs" by simp
    then show "rId ` set out \<subseteq> rId ` set recs" by (auto simp: deduplicate_ids)
  qed
  show ?thesis by (rule conjI[OF 1 conjI[OF 2 3]])
qed

theorem tenant_scoped_candidates_witness:
  "aggregate demo_env demo_req = Value demo_payload
   \<and> distinct (map u_id (db_users demo_env))
   \<and> distinct (map r_id (db_resources demo_env))
   \<and> res3 \<in> set (db_resources demo_env)
   \<and> bob \<in> set (db_users demo_env)
   \<and> u_id bob = r_createdBy res3
   \<and> u_company bob \<noteq> req_user_company demo_req
   \<and> r_id res3 \<notin> fr_id ` set (resources demo_payload)
   \<and> scoring_oracle demo_env demo_payload = OracleThrows ''ECONNREFUSED''
   \<and> getSuggestions demo_env demo_req = Response 200 (Recommendations fallback_out)
   \<and> Some (r_id res3) \<notin> rId ` set fallback_out"
proof -
  have a: "aggregate demo_env demo_req = Value demo_payload" by code_simp
  have b: "distinct (map u_id (db_users demo_env))" by code_simp
  have c: "distinct (map r_id (db_resources demo_env))" by code_simp
  have d: "res3 \<in> set (db_resources demo_env)" by code_simp
  have f: "bob \<in> set (db_users demo_env)" by code_simp
  have g: "u_id bob = r_createdBy res3" by code_simp
  have h: "u_company bob \<noteq> req_user_company demo_req" by code_simp
  have i: "scoring_oracle demo_env demo_payload = OracleThrows ''ECONNREFUSED''" by code_simp
  have j: "getSuggestions demo_env demo_req = Response 200 (Recommendations fallback_out)"
    by code_simp
  from tenant_scoped_candidates[OF a]
  have "distinct (map u_id (db_users demo_env)) \<and> distinct (map r_id (db_resources demo_env)) \<longrightarrow>
         (\<forall>r\<in>set (db_resources demo_env). \<forall>u\<in>set (db_users demo_env).
             u_id u = r_createdBy r \<and> u_company u \<noteq> req_user_company demo_req \<longrightarrow>
               r_id r \<notin> fr_id ` set (resources demo_payload)
             \<and> (\<forall>m out. scoring_oracle demo_env demo_payload = OracleThrows m
                    \<and> getSuggestions demo_env demo_req = Response 200 (Recommendations out) \<longrightarrow>
                    Some (r_id r) \<notin> rId ` set out))"
    by (elim conjE)
  with b c d f g h
  have k: "r_id res3 \<notin> fr_id ` set (resources demo_payload)"
    and k': "\<forall>m out. scoring_oracle demo_env demo_payload = OracleThrows m
            \<and> getSuggestions demo_env demo_req = Response 200 (Recommendations out) \<longrightarrow>
            Some (r_id res3) \<notin> rId ` set out"
    by blast+
  from k' i j have l: "Some (r_id res3) \<notin> rId ` set fallback_out" by blast
  from a b c d f g h k i j l show ?thesis by (intro conjI)
qed

text \<open>
  Claim C5, as stated, fails: an error of the admin lookup (tier 1) does not fall through
  to the next tier. The outer \<^verbatim>\<open>catch\<close> encloses both tiers, so the legacy
  file is skipped and the defaults are returned although a valid legacy file exists.
\<close>

theorem admin_lookup_error_counterexample:
  "db_fails admin_down_env User_findOne_admin
   \<and> legacy_config admin_down_env = FileJson legacy_weights
   \<and> getWeights admin_down_env ''A'' = DEFAULT_WEIGHTS
   \<and> getWeights_as_specified admin_down_env ''A'' = legacy_weights
   \<and> legacy_weights \<noteq> DEFAULT_WEIGHTS"
  by code_simp

text \<open>
  Claim C5, amended. Weight resolution always returns a configuration and never an error.
  When the admin lookup fails, the defaults are returned and the legacy file is not
  consulted. Otherwise the weights of the company's admin account are returned when
  present; if not, the content of the legacy file when it exists, can be read and parses;
  if not, the hard-coded defaults. The first match wins and nothing is merged. In
  particular, without admin weights and without a legacy file the result is exactly the
  hard-coded defaults.
\<close>

theorem weight_resolution:
  "getWeights e c =
     (if db_fails e User_findOne_admin then DEFAULT_WEIGHTS
      else case admin_aiWeights (findOne_admin (db_users e) c) of
             Some w \<Rightarrow> w
           | None \<Rightarrow>
               (case legacy_config e of
                  FileJson w \<Rightarrow> w
                | FileAbsent \<Rightarrow> DEFAULT_WEIGHTS
                | FileUnreadable \<Rightarrow> DEFAULT_WEIGHTS
                | FileMalformed \<Rightarrow> DEFAULT_WEIGHTS))"
  by (simp add: getWeights_def getWeights_try_def await_def legacy_tier_def
      split: option.splits legacy_file.splits)

theorem weight_resolution_witness:
  "\<not> db_fails demo_env User_findOne_admin
   \<and> admin_aiWeights (findOne_admin (db_users demo_env) ''A'') = None
   \<and> legacy_config demo_env = FileAbsent
   \<and> getWeights demo_env ''A'' = DEFAULT_WEIGHTS
   \<and> admin_aiWeights (findOne_admin (db_users admin_env) ''A'') = Some admin_weights
   \<and> legacy_config admin_env = FileJson legacy_weights
   \<and> getWeights admin_env ''A'' = admin_weights
   \<and> getWeights legacy_env ''A'' = legacy_weights
   \<and> getWeights malformed_file_env ''A'' = DEFAULT_WEIGHTS"
proof -
  have a: "\<not> db_fails demo_env User_findOne_admin" by code_simp
  have b: "admin_aiWeights (findOne_admin (db_users demo_env) ''A'') = None" by code_simp
  have c: "legacy_config demo_env = FileAbsent" by code_simp
  have d: "getWeights demo_env ''A'' = DEFAULT_WEIGHTS"
    using weight_resolution[of demo_env "''A''"] a b c by simp
  have a1: "\<not> db_fails admin_env User_findOne_admin" by code_simp
  have b1: "admin_aiWeights (findOne_admin (db_users admin_env) ''A'') = Some admin_weights"
    by code_simp
  have c1: "legacy_config admin_env = FileJson legacy_weights" by code_simp
  have d1: "getWeights admin_env ''A'' = admin_weights"
    using weight_resolution[of admin_env "''A''"] a1 b1 by simp
  have a2: "\<not> db_fails legacy_env User_findOne_admin" by code_simp
  have b2: "admin_aiWeights (findOne_admin (db_users legacy_env) ''A'') = None" by code_simp
  have c2: "legacy_config legacy_env = FileJson legacy_weights" by code_simp
  have d2: "getWeights legacy_env ''A'' = legacy_weights"
    using weight_resolution[of legacy_env "''A''"] a2 b2 c2 by simp
  have a3: "\<not> db_fails malformed_file_env User_findOne_admin" by code_simp
  have b3: "admin_aiWeights (findOne_admin (db_users malformed_file_env) ''A'') = None"
    by code_simp
  have c3: "legacy_config malformed_file_env = FileMalformed" by code_simp
  have d3: "getWeights malformed_file_env ''A'' = DEFAULT_WEIGHTS"
    using weight_resolution[of malformed_file_env "''A''"] a3 b3 c3 by simp
  from a b c d b1 c1 d1 d2 d3 show ?thesis by (intro conjI)
qed

text \<open>
  Claim C6. The goal text sent to the oracle is the \<^verbatim>\<open>goals\<close> field of a
  development plan of the requester whose status is draft, pending or approved and whose
  creation time is not before that of any other such plan; it is the empty string when
  the requester has no such plan. So with an older draft plan and a newer approved plan
  it is the newer plan's goals.
\<close>

theorem goal_text_latest_plan:
  assumes "aggregate e req = Value p"
  shows "if \<exists>i\<in>set (db_idps e). idp_employee i = req_user_id req
              \<and> (idp_status i = ''draft'' \<or> idp_status i = ''pending'' \<or> idp_status i = ''approved'')
         then \<exists>i\<in>set (db_idps e).
                idp_employee i = req_user_id req
              \<and> (idp_status i = ''draft'' \<or> idp_status i = ''pending'' \<or> idp_status i = ''approved'')
              \<and> goal_text p = idp_goals i
              \<and> (\<forall>j\<in>set (db_idps e).
                    idp_employee j = req_user_id req
                  \<and> (idp_status j = ''draft'' \<or> idp_status j = ''pending'' \<or> idp_status j = ''approved'')
                  \<longrightarrow> idp_createdAt j \<le> idp_createdAt i)
         else goal_text p = []"
proof -
  have g: "goal_text p = goalText (latestIdp (db_idps e) (req_user_id req))"
    using assms by (rule aggregate_goal_text)
  show ?thesis
  proof (cases "latestIdp (db_idps e) (req_user_id req)")
    case None
    then have "\<forall>i\<in>set (db_idps e). \<not> eligible_plan (req_user_id req) i"
      by (simp add: latestIdp_None)
    then have n: "\<not> (\<exists>i\<in>set (db_idps e). idp_employee i = req_user_id req
              \<and> (idp_status i = ''draft'' \<or> idp_status i = ''pending'' \<or> idp_status i = ''approved''))"
      unfolding eligible_plan_iff by blast
    from None g have "goal_text p = []" by (simp add: goalText_def)
    then show ?thesis unfolding if_not_P[OF n] .
  next
    case (Some i)
    from latestIdp_Some[OF Some] have i: "i \<in> set (db_idps e)"
      and el: "eligible_plan (req_user_id req) i"
      and mx: "\<forall>j\<in>set (db_idps e). eligible_plan (req_user_id req) j \<longrightarrow> idp_createdAt j \<le> idp_createdAt i"
      by simp_all
    from Some g have gi: "goal_text p = idp_goals i" by (simp add: goalText_def)
    have ex: "\<exists>i\<in>set (db_idps e). idp_employee i = req_user_id req
              \<and> (idp_status i = ''draft'' \<or> idp_status i = ''pending'' \<or> idp_status i = ''approved'')"
      using i el unfolding eligible_plan_iff by blast
    have "\<exists>i\<in>set (db_idps e).
                idp_employee i = req_user_id req
              \<and> (idp_status i = ''draft'' \<or> idp_status i = ''pending'' \<or> idp_status i = ''approved'')
              \<and> goal_text p = idp_goals i
              \<and> (\<forall>j\<in>set (db_idps e).
                    idp_employee j = req_user_id req
                  \<and> (idp_status j = ''draft'' \<or> idp_status j = ''pending'' \<or> idp_status j = ''approved'')
                  \<longrightarrow> idp_createdAt j \<le> idp_createdAt i)"
      using i el gi mx unfolding eligible_plan_iff by blast
    then show ?thesis unfolding if_P[OF ex] .
  qed
qed

theorem goal_text_latest_plan_witness:
  "aggregate demo_env demo_req = Value demo_payload
   \<and> map (\<lambda>i. (idp_status i, idp_createdAt i, idp_goals i))
       (filter (\<lambda>i. idp_employee i = req_user_id demo_req) (db_idps demo_env))
     = [(''draft'', 1, ''older goals''), (''approved'', 2, ''newer goals'')]
   \<and> goal_text demo_payload = ''newer goals''"
proof -
  have a: "aggregate demo_env demo_req = Value demo_payload" by code_simp
  have b: "map (\<lambda>i. (idp_status i, idp_createdAt i, idp_goals i))
       (filter (\<lambda>i. idp_employee i = req_user_id demo_req) (db_idps demo_env))
     = [(''draft'', 1, ''older goals''), (''approved'', 2, ''newer goals'')]" by code_simp
  have "goal_text demo_payload = ''newer goals''"
    using goal_text_latest_plan[OF a]
    by (simp add: demo_env_def demo_req_def demo_idps_def split: if_splits)
  with a b show ?thesis by (intro conjI)
qed

text \<open>
  Claim C7. Every candidate comes from a stored resource and carries that resource's
  provider, except that when the stored provider is absent, empty or
  \<^verbatim>\<open>'Unknown'\<close> the candidate's provider is the display name of the resource's
  creator. Whenever the handler answers, on either path, every returned item \<open>x\<close> comes
  from an item \<open>r\<close> of the list before reconciliation: if the provider of \<open>r\<close> is
  absent, empty or \<^verbatim>\<open>'Unknown'\<close> and a candidate has the identifier of \<open>r\<close>,
  then \<open>x\<close> is \<open>r\<close> with the provider of such a candidate; otherwise \<open>x\<close> is \<open>r\<close>
  unchanged.
\<close>

theorem provider_backfill:
  assumes "aggregate e req = Value p"
  shows "(\<forall>c\<in>set (resources p). \<exists>r\<in>set (db_resources e). \<exists>u\<in>set (db_users e).
            c = format_resource (db_users e) r
          \<and> find (\<lambda>u. u_id u = r_createdBy r) (db_users e) = Some u
          \<and> (if r_provider r = None \<or> r_provider r = Some [] \<or> r_provider r = Some ''Unknown''
             then fr_provider c = u_name u
             else r_provider r = Some (fr_provider c)))
    \<and> (\<forall>recs frs. dispatch e p = (AiObject (RecsArray recs), frs) \<longrightarrow>
          (\<exists>out. getSuggestions e req = Response 200 (Recommendations out)
             \<and> (\<forall>x\<in>set out. \<exists>r\<in>set recs. rId x = rId r
                  \<and> (if (\<not> truthy (provider r) \<or> provider r = Some ''Unknown'')
                         \<and> (\<exists>c\<in>set (resources p). Some (fr_id c) = rId r)
                      then \<exists>c\<in>set (resources p). Some (fr_id c) = rId r
                             \<and> x = r\<lparr>provider := Some (fr_provider c)\<rparr>
                      else x = r))))"
proof -
  have 1: "\<forall>c\<in>set (resources p). \<exists>r\<in>set (db_resources e). \<exists>u\<in>set (db_users e).
            c = format_resource (db_users e) r
          \<and> find (\<lambda>u. u_id u = r_createdBy r) (db_users e) = Some u
          \<and> (if r_provider r = None \<or> r_provider r = Some [] \<or> r_provider r = Some ''Unknown''
             then fr_provider c = u_name u
             else r_provider r = Some (fr_provider c))"
    using candidate_provider[OF assms] by blast
  have 2: "\<forall>recs frs. dispatch e p = (AiObject (RecsArray recs), frs) \<longrightarrow>
          (\<exists>out. getSuggestions e req = Response 200 (Recommendations out)
             \<and> (\<forall>x\<in>set out. \<exists>r\<in>set recs. rId x = rId r
                  \<and> (if (\<not> truthy (provider r) \<or> provider r = Some ''Unknown'')
                         \<and> (\<exists>c\<in>set (resources p). Some (fr_id c) = rId r)
                      then \<exists>c\<in>set (resources p). Some (fr_id c) = rId r
                             \<and> x = r\<lparr>provider := Some (fr_provider c)\<rparr>
                      else x = r)))"
  proof (intro allI impI)
    fix recs frs
    assume d: "dispatch e p = (AiObject (RecsArray recs), frs)"
    have fs: "set frs = set (resources p)" using d by (rule dispatch_frs)
    have g: "getSuggestions e req = Response 200 (Recommendations (deduplicate frs recs))"
      using assms d by (rule getSuggestions_success)
    have "\<forall>x\<in>set (deduplicate frs recs). \<exists>r\<in>set recs. rId x = rId r
                  \<and> (if (\<not> truthy (provider r) \<or> provider r = Some ''Unknown'')
                         \<and> (\<exists>c\<in>set (resources p). Some (fr_id c) = rId r)
                      then \<exists>c\<in>set (resources p). Some (fr_id c) = rId r
                             \<and> x = r\<lparr>provider := Some (fr_provider c)\<rparr>
                      else x = r)"
    proof
      fix x assume "x \<in> set (deduplicate frs recs)"
      from deduplicate_elem[OF this] obtain r
        where r: "r \<in> set recs" and x: "x = backfill frs r" by blast
      have i: "rId x = rId r" by (simp add: x rId_backfill)
      have "if (\<not> truthy (provider r) \<or> provider r = Some ''Unknown'')
                         \<and> (\<exists>c\<in>set (resources p). Some (fr_id c) = rId r)
                      then \<exists>c\<in>set (resources p). Some (fr_id c) = rId r
                             \<and> x = r\<lparr>provider := Some (fr_provider c)\<rparr>
                      else x = r"
        using backfill_cases[of r frs] unfolding fs x .
      with r i show "\<exists>r\<in>set recs. rId x = rId r
                  \<and> (if (\<not> truthy (provider r) \<or> provider r = Some ''Unknown'')
                         \<and> (\<exists>c\<in>set (resources p). Some (fr_id c) = rId r)
                      then \<exists>c\<in>set (resources p). Some (fr_id c) = rId r
                             \<and> x = r\<lparr>provider := Some (fr_provider c)\<rparr>
                      else x = r)" by blast
    qed
    with g show "\<exists>out. getSuggestions e req = Response 200 (Recommendations out)
             \<and> (\<forall>x\<in>set out. \<exists>r\<in>set recs. rId x = rId r
                  \<and> (if (\<not> truthy (provider r) \<or> provider r = Some ''Unknown'')
                         \<and> (\<exists>c\<in>set (resources p). Some (fr_id c) = rId r)
                      then \<exists>c\<in>set (resources p). Some (fr_id c) = rId r
                             \<and> x = r\<lparr>provider := Some (fr_provider c)\<rparr>
                      else x = r))" by blast
  qed
  show ?thesis by (rule conjI[OF 1 2])
qed

theorem provider_backfill_witness:
  "aggregate echo_env demo_req = Value demo_payload
   \<and> res1 \<in> set (db_resources echo_env)
   \<and> r_provider res1 = Some ''Unknown''
   \<and> find (\<lambda>u. u_id u = r_createdBy res1) (db_users echo_env) = Some dana
   \<and> u_name dana = ''Dana''
   \<and> format_resource (db_users echo_env) res1 = cand1
   \<and> cand1 \<in> set (resources demo_payload)
   \<and> fr_provider cand1 = ''Dana''
   \<and> dispatch echo_env demo_payload = (AiObject (RecsArray echo_recs), resources demo_payload)
   \<and> map (\<lambda>r. (rId r, provider r)) echo_recs =
       [(Some ''r1'', Some ''Unknown''), (Some ''r1'', Some ''Udemy''),
        (None, Some ''Udemy''), (Some ''r2'', None)]
   \<and> getSuggestions echo_env demo_req = Response 200 (Recommendations echo_out)
   \<and> map (\<lambda>r. (rId r, provider r)) echo_out =
       [(Some ''r1'', Some ''Dana''), (Some ''r2'', Some ''Coursera'')]"
proof -
  have a: "aggregate echo_env demo_req = Value demo_payload" by code_simp
  have b: "res1 \<in> set (db_resources echo_env)" by code_simp
  have c: "r_provider res1 = Some ''Unknown''" by code_simp
  have d: "find (\<lambda>u. u_id u = r_createdBy res1) (db_users echo_env) = Some dana" by code_simp
  have f: "u_name dana = ''Dana''" by code_simp
  have g: "format_resource (db_users echo_env) res1 = cand1" by code_simp
  have h: "cand1 \<in> set (resources demo_payload)" by code_simp
  have i: "fr_provider cand1 = ''Dana''" by code_simp
  have j: "dispatch echo_env demo_payload = (AiObject (RecsArray echo_recs), resources demo_payload)"
    by code_simp
  have k: "map (\<lambda>r. (rId r, provider r)) echo_recs =
       [(Some ''r1'', Some ''Unknown''), (Some ''r1'', Some ''Udemy''),
        (None, Some ''Udemy''), (Some ''r2'', None)]" by code_simp
  have m: "map (\<lambda>r. (rId r, provider r)) echo_out =
       [(Some ''r1'', Some ''Dana''), (Some ''r2'', Some ''Coursera'')]" by code_simp
  from provider_backfill[OF a] j obtain out
    where o: "getSuggestions echo_env demo_req = Response 200 (Recommendations out)" by blast
  have "getSuggestions echo_env demo_req = Response 200 (Recommendations echo_out)" by code_simp
  with o have l: "getSuggestions echo_env demo_req = Response 200 (Recommendations echo_out)"
    by simp
  from a b c d f g h i j k l m show ?thesis by (intro conjI)
qed

text \<open>
  Claim C8. Every entry of \<^verbatim>\<open>peer_data\<close> is a user of the requester's company
  other than the requester, with that user's skills; its resources have no duplicates and
  are exactly the recommended-resource identifiers of that employee's development plans
  with status approved or completed; and no entry has both no skills and no resources.
  Every other user of the company with a skill or such a resource has an entry. With
  unique user identifiers, a user with no skills and no such resource has no entry.
\<close>

theorem peer_aggregation:
  assumes "aggregate e req = Value p"
  shows "(\<forall>q\<in>set (peer_data p).
            (\<exists>u\<in>set (db_users e). u_id u = userId q \<and> u_id u \<noteq> req_user_id req
                \<and> u_company u = req_user_company req
                \<and> map skillId (peer_skills q) = map skillId (u_skills u))
          \<and> distinct (peer_resources q)
          \<and> set (peer_resources q) =
              (\<Union>i\<in>{i \<in> set (db_idps e). idp_employee i = userId q
                        \<and> (idp_status i = ''approved'' \<or> idp_status i = ''completed'')}.
                 set (idp_recommendedResources i))
          \<and> \<not> (peer_skills q = [] \<and> peer_resources q = []))
    \<and> (\<forall>u\<in>set (db_users e).
          u_id u \<noteq> req_user_id req \<and> u_company u = req_user_company req
          \<and> (u_skills u \<noteq> []
             \<or> (\<exists>i\<in>set (db_idps e). idp_employee i = u_id u
                   \<and> (idp_status i = ''approved'' \<or> idp_status i = ''completed'')
                   \<and> idp_recommendedResources i \<noteq> []))
          \<longrightarrow> (\<exists>q\<in>set (peer_data p). userId q = u_id u))
    \<and> (distinct (map u_id (db_users e)) \<longrightarrow>
         (\<forall>u\<in>set (db_users e).
            u_skills u = []
            \<and> (\<forall>i\<in>set (db_idps e). idp_employee i = u_id u
                   \<and> (idp_status i = ''approved'' \<or> idp_status i = ''completed'')
                   \<longrightarrow> idp_recommendedResources i = [])
            \<longrightarrow> u_id u \<notin> userId ` set (peer_data p)))"
proof -
  let ?peers = "allUsers (db_users e) (req_user_id req) (req_user_company req)"
  let ?m = "userResourcesMap (allIDPs (db_idps e) ?peers)"
  let ?consumed = "\<lambda>k. (\<Union>i\<in>{i \<in> set (db_idps e). idp_employee i = k
                        \<and> (idp_status i = ''approved'' \<or> idp_status i = ''completed'')}.
                 set (idp_recommendedResources i))"
  have pd: "peer_data p = peerData ?m ?peers" using assms by (rule aggregate_peer_data)
  have peers: "u \<in> set ?peers \<longleftrightarrow>
      u \<in> set (db_users e) \<and> u_id u \<noteq> req_user_id req \<and> u_company u = req_user_company req" for u
    by (auto simp: allUsers_def)
  have res: "set (members ?m (u_id u)) = ?consumed (u_id u)" if "u \<in> set ?peers" for u
    unfolding set_members_userResourcesMap counted_plans_of_peer[OF that] ..
  have 1: "\<forall>q\<in>set (peer_data p).
            (\<exists>u\<in>set (db_users e). u_id u = userId q \<and> u_id u \<noteq> req_user_id req
                \<and> u_company u = req_user_company req
                \<and> map skillId (peer_skills q) = map skillId (u_skills u))
          \<and> distinct (peer_resources q)
          \<and> set (peer_resources q) = ?consumed (userId q)
          \<and> \<not> (peer_skills q = [] \<and> peer_resources q = [])"
  proof
    fix q assume "q \<in> set (peer_data p)"
    then obtain u where u: "u \<in> set ?peers" and q: "q = peer_of ?m u"
      and ne: "peer_resources q \<noteq> [] \<or> peer_skills q \<noteq> []"
      unfolding pd peerData_elem by blast
    from u have a: "\<exists>u\<in>set (db_users e). u_id u = userId q \<and> u_id u \<noteq> req_user_id req
                \<and> u_company u = req_user_company req
                \<and> map skillId (peer_skills q) = map skillId (u_skills u)"
      unfolding q peers by (auto simp: peer_of_simps)
    have b: "distinct (peer_resources q)"
      unfolding q by (simp add: peer_of_simps distinct_members_userResourcesMap)
    have c: "set (peer_resources q) = ?consumed (userId q)"
      unfolding q peer_of_simps using res[OF u] .
    from a b c ne show "(\<exists>u\<in>set (db_users e). u_id u = userId q \<and> u_id u \<noteq> req_user_id req
                \<and> u_company u = req_user_company req
                \<and> map skillId (peer_skills q) = map skillId (u_skills u))
          \<and> distinct (peer_resources q)
          \<and> set (peer_resources q) = ?consumed (userId q)
          \<and> \<not> (peer_skills q = [] \<and> peer_resources q = [])" by blast
  qed
  have 2: "\<forall>u\<in>set (db_users e).
          u_id u \<noteq> req_user_id req \<and> u_company u = req_user_company req
          \<and> (u_skills u \<noteq> []
             \<or> (\<exists>i\<in>set (db_idps e). idp_employee i = u_id u
                   \<and> (idp_status i = ''approved'' \<or> idp_status i = ''completed'')
                   \<and> idp_recommendedResources i \<noteq> []))
          \<longrightarrow> (\<exists>q\<in>set (peer_data p). userId q = u_id u)"
  proof (intro ballI impI)
    fix u assume "u \<in> set (db_users e)"
      and h: "u_id u \<noteq> req_user_id req \<and> u_company u = req_user_company req
          \<and> (u_skills u \<noteq> []
             \<or> (\<exists>i\<in>set (db_idps e). idp_employee i = u_id u
                   \<and> (idp_status i = ''approved'' \<or> idp_status i = ''completed'')
                   \<and> idp_recommendedResources i \<noteq> []))"
    then have u: "u \<in> set ?peers" unfolding peers by simp
    from h have "u_skills u \<noteq> [] \<or> ?consumed (u_id u) \<noteq> {}" by fastforce
    then have "u_skills u \<noteq> [] \<or> set (members ?m (u_id u)) \<noteq> {}"
      unfolding res[OF u] .
    then have "peer_resources (peer_of ?m u) \<noteq> [] \<or> peer_skills (peer_of ?m u) \<noteq> []"
      by (auto simp: peer_of_simps)
    with u have "peer_of ?m u \<in> set (peer_data p)" unfolding pd peerData_elem by blast
    moreover have "userId (peer_of ?m u) = u_id u" by (simp add: peer_of_simps)
    ultimately show "\<exists>q\<in>set (peer_data p). userId q = u_id u" by blast
  qed
  have 3: "distinct (map u_id (db_users e)) \<longrightarrow>
         (\<forall>u\<in>set (db_users e).
            u_skills u = []
            \<and> (\<forall>i\<in>set (db_idps e). idp_employee i = u_id u
                   \<and> (idp_status i = ''approved'' \<or> idp_status i = ''completed'')
                   \<longrightarrow> idp_recommendedResources i = [])
            \<longrightarrow> u_id u \<notin> userId ` set (peer_data p))"
  proof (intro impI ballI notI)
    fix u
    assume du: "distinct (map u_id (db_users e))" and u: "u \<in> set (db_users e)"
      and h: "u_skills u = []
            \<and> (\<forall>i\<in>set (db_idps e). idp_employee i = u_id u
                   \<and> (idp_status i = ''approved'' \<or> idp_status i = ''completed'')
                   \<longrightarrow> idp_recommendedResources i = [])"
      and "u_id u \<in> userId ` set (peer_data p)"
    then obtain q where "q \<in> set (peer_data p)" and iq: "userId q = u_id u" by auto
    then obtain u' where u': "u' \<in> set ?peers" and q: "q = peer_of ?m u'"
      and ne: "peer_resources q \<noteq> [] \<or> peer_skills q \<noteq> []"
      unfolding pd peerData_elem by blast
    from u' have mem: "u' \<in> set (db_users e)" unfolding peers by simp
    from iq have "u_id u' = u_id u" unfolding q by (simp add: peer_of_simps)
    then have same: "u' = u" by (rule distinct_map_eq[OF du mem u])
    from h have "?consumed (u_id u) = {}" by auto
    then have "set (members ?m (u_id u)) = {}" using res[OF u'] unfolding same by simp
    then have "peer_resources q = []" unfolding q same by (simp add: peer_of_simps)
    moreover from h have "peer_skills q = []" unfolding q same by (simp add: peer_of_simps)
    ultimately show False using ne by simp
  qed
  show ?thesis by (rule conjI[OF 1 conjI[OF 2 3]])
qed

theorem peer_aggregation_witness:
  "aggregate demo_env demo_req = Value demo_payload
   \<and> distinct (map u_id (db_users demo_env))
   \<and> pat \<in> set (db_users demo_env)
   \<and> u_company pat = req_user_company demo_req
   \<and> u_skills pat = []
   \<and> filter (\<lambda>i. idp_employee i = u_id pat) (db_idps demo_env) = []
   \<and> u_id pat \<notin> userId ` set (peer_data demo_payload)
   \<and> map idp_recommendedResources (filter (\<lambda>i. idp_employee i = u_id dana) (db_idps demo_env))
       = [[''r1'', ''r1'', ''r2'']]
   \<and> peer_data demo_payload =
       [\<lparr>userId = u_id dana, peer_skills = [], peer_resources = [''r1'', ''r2'']\<rparr>]"
proof -
  have a: "aggregate demo_env demo_req = Value demo_payload" by code_simp
  have b: "distinct (map u_id (db_users demo_env))" by code_simp
  have c: "pat \<in> set (db_users demo_env)" by code_simp
  have d: "u_company pat = req_user_company demo_req" by code_simp
  have f: "u_skills pat = []" by code_simp
  have g: "filter (\<lambda>i. idp_employee i = u_id pat) (db_idps demo_env) = []" by code_simp
  have h: "\<forall>i\<in>set (db_idps demo_env). idp_employee i = u_id pat
                   \<and> (idp_status i = ''approved'' \<or> idp_status i = ''completed'')
                   \<longrightarrow> idp_recommendedResources i = []" by code_simp
  from peer_aggregation[OF a]
  have "distinct (map u_id (db_users demo_env)) \<longrightarrow>
         (\<forall>u\<in>set (db_users demo_env).
            u_skills u = []
            \<and> (\<forall>i\<in>set (db_idps demo_env). idp_employee i = u_id u
                   \<and> (idp_status i = ''approved'' \<or> idp_status i = ''completed'')
                   \<longrightarrow> idp_recommendedResources i = [])
            \<longrightarrow> u_id u \<notin> userId ` set (peer_data demo_payload))"
    by (elim conjE)
  with b c f h have i: "u_id pat \<notin> userId ` set (peer_data demo_payload)" by blast
  have j: "map idp_recommendedResources (filter (\<lambda>i. idp_employee i = u_id dana) (db_idps demo_env))
       = [[''r1'', ''r1'', ''r2'']]" by code_simp
  have k: "peer_data demo_payload =
       [\<lparr>userId = u_id dana, peer_skills = [], peer_resources = [''r1'', ''r2'']\<rparr>]" by code_simp
  from a b c d f g i j k show ?thesis by (intro conjI)
qed

text \<open>
  Claim C9. When the requester's profile is looked up and not found, the answer is 404
  with the message \<^verbatim>\<open>User not found\<close>, whatever the oracle would do; this is the
  only case with status 404. When the profile lookup is rejected, or the profile exists
  and any later store query of the handler is rejected or one of the requester's skills
  refers to no skill document, the answer is 500 with the generic message and the error's
  message. Every answer is one of: 200 with a recommendation list, 200 with the oracle's
  answer passed on as it came, that 404, or such a 500, which carries no recommendations.
\<close>

theorem not_found_and_failures:
  "(\<not> db_fails e User_findById \<and> findById (db_users e) (req_user_id req) = None \<longrightarrow>
      getSuggestions e req = Response 404 (Message ''User not found''))
   \<and> (status (getSuggestions e req) = 404 \<longrightarrow>
      \<not> db_fails e User_findById \<and> findById (db_users e) (req_user_id req) = None)
   \<and> (db_fails e User_findById
       \<or> (\<exists>user. findById (db_users e) (req_user_id req) = Some user
            \<and> ((\<exists>q. q \<noteq> User_findOne_admin \<and> db_fails e q)
               \<or> (\<exists>s\<in>set (u_skills user). populate_skill (db_skills e) s = None)))
       \<longrightarrow> (\<exists>m. getSuggestions e req = Response 500 (Failure ''Failed to generate suggestions'' m)))
   \<and> ((\<exists>recs. getSuggestions e req = Response 200 (Recommendations recs))
       \<or> getSuggestions e req = Response 200 Passthrough
       \<or> getSuggestions e req = Response 404 (Message ''User not found'')
       \<or> (\<exists>m. getSuggestions e req = Response 500 (Failure ''Failed to generate suggestions'' m)))"
proof -
  have 1: "\<not> db_fails e User_findById \<and> findById (db_users e) (req_user_id req) = None \<longrightarrow>
      getSuggestions e req = Response 404 (Message ''User not found'')"
    using getSuggestions_Return404[of e req] unfolding aggregate_Return404_iff by blast
  have 2: "status (getSuggestions e req) = 404 \<longrightarrow>
      \<not> db_fails e User_findById \<and> findById (db_users e) (req_user_id req) = None"
    unfolding getSuggestions_404_iff aggregate_Return404_iff by blast
  have 3: "db_fails e User_findById
       \<or> (\<exists>user. findById (db_users e) (req_user_id req) = Some user
            \<and> ((\<exists>q. q \<noteq> User_findOne_admin \<and> db_fails e q)
               \<or> (\<exists>s\<in>set (u_skills user). populate_skill (db_skills e) s = None)))
       \<longrightarrow> (\<exists>m. getSuggestions e req = Response 500 (Failure ''Failed to generate suggestions'' m))"
  proof
    assume "db_fails e User_findById
       \<or> (\<exists>user. findById (db_users e) (req_user_id req) = Some user
            \<and> ((\<exists>q. q \<noteq> User_findOne_admin \<and> db_fails e q)
               \<or> (\<exists>s\<in>set (u_skills user). populate_skill (db_skills e) s = None)))"
    from aggregate_failure[OF this] obtain m where "aggregate e req = Throw m" by blast
    from getSuggestions_Throw[OF this]
    show "\<exists>m. getSuggestions e req = Response 500 (Failure ''Failed to generate suggestions'' m)"
      by blast
  qed
  have 4: "(\<exists>recs. getSuggestions e req = Response 200 (Recommendations recs))
       \<or> getSuggestions e req = Response 200 Passthrough
       \<or> getSuggestions e req = Response 404 (Message ''User not found'')
       \<or> (\<exists>m. getSuggestions e req = Response 500 (Failure ''Failed to generate suggestions'' m))"
    by (rule getSuggestions_cases)
  show ?thesis by (rule conjI[OF 1 conjI[OF 2 conjI[OF 3 4]]])
qed

theorem not_found_and_failures_witness:
  "\<not> db_fails demo_env User_findById
   \<and> findById (db_users demo_env) (req_user_id ghost_req) = None
   \<and> getSuggestions demo_env ghost_req = Response 404 (Message ''User not found'')
   \<and> getSuggestions echo_env ghost_req = Response 404 (Message ''User not found'')
   \<and> findById (db_users resources_down_env) (req_user_id demo_req) = Some alice
   \<and> db_fails resources_down_env Resource_find
   \<and> getSuggestions resources_down_env demo_req =
        Response 500 (Failure ''Failed to generate suggestions'' ''store error'')"
proof -
  have a: "\<not> db_fails demo_env User_findById" by code_simp
  have b: "findById (db_users demo_env) (req_user_id ghost_req) = None" by code_simp
  have c: "getSuggestions demo_env ghost_req = Response 404 (Message ''User not found'')"
    using not_found_and_failures[of demo_env ghost_req] a b by blast
  have a': "\<not> db_fails echo_env User_findById" by code_simp
  have b': "findById (db_users echo_env) (req_user_id ghost_req) = None" by code_simp
  have c': "getSuggestions echo_env ghost_req = Response 404 (Message ''User not found'')"
    using not_found_and_failures[of echo_env ghost_req] a' b' by blast
  have d: "findById (db_users resources_down_env) (req_user_id demo_req) = Some alice"
    by code_simp
  have f: "db_fails resources_down_env Resource_find" by code_simp
  have "Resource_find \<noteq> User_findOne_admin" by simp
  with d f have "\<exists>user. findById (db_users resources_down_env) (req_user_id demo_req) = Some user
            \<and> ((\<exists>q. q \<noteq> User_findOne_admin \<and> db_fails resources_down_env q)
               \<or> (\<exists>s\<in>set (u_skills user). populate_skill (db_skills resources_down_env) s = None))"
    by blast
  with not_found_and_failures[of resources_down_env demo_req]
  obtain m where g: "getSuggestions resources_down_env demo_req =
      Response 500 (Failure ''Failed to generate suggestions'' m)" by blast
  have "getSuggestions resources_down_env demo_req =
      Response 500 (Failure ''Failed to generate suggestions'' ''store error'')" by code_simp
  with g have h: "getSuggestions resources_down_env demo_req =
      Response 500 (Failure ''Failed to generate suggestions'' ''store error'')" by simp
  from a b c c' d f h show ?thesis by (intro conjI)
qed

end
